theory Spec2Isabelle
  imports Main "HOL-Library.Word"
begin

section \<open>The command line: parsed arguments and flag schemas\<close>

text \<open>
  \<^verbatim>\<open>index.js\<close> registers three yargs commands; each handler receives the parsed
  \<^verbatim>\<open>argv\<close> object. The record below has one field per property that the handlers
  read, under the name the code reads it by (\<^verbatim>\<open>argv.marginTop\<close>, \<^verbatim>\<open>argv.waitUntil\<close>).
  \<^verbatim>\<open>argv.output\<close> is the field \<open>outputArg\<close>. A string flag or positional that was not
  given is \<^verbatim>\<open>undefined\<close> in JavaScript: \<open>None\<close> here. Every flag is taken as given at
  most once, with a value of its declared type.
\<close>

record argv =
  sandbox :: bool
  timeout :: int
  waitUntil :: string
  cookie :: "string option"
  url :: string
  outputArg :: "string option"
  batchFile :: string
  background :: bool
  marginTop :: string
  marginRight :: string
  marginBottom :: string
  marginLeft :: string
  format :: string
  landscape :: bool
  displayHeaderFooter :: bool
  headerTemplate :: string
  footerTemplate :: string
  fullPage :: bool
  omitBackground :: bool
  viewport :: "string option"

text \<open>
  A yargs builder, as the list of its flags in declaration order, each with its default
  (\<open>None\<close> where the code declares none). \<^verbatim>\<open>...commonOptions\<close> spreads the
  common flags in front of a command's own.
\<close>

datatype flagDefault = BoolDefault bool | NumberDefault int | StringDefault string

type_synonym builder = "(string \<times> flagDefault option) list"

definition commonOptions :: builder where
  "commonOptions =
     [(''sandbox'', Some (BoolDefault False)),
      (''timeout'', Some (NumberDefault (30 * 1000))),
      (''wait-until'', Some (StringDefault ''load'')),
      (''cookie'', None)]"

definition bulkPrintBuilder :: builder where
  "bulkPrintBuilder = commonOptions @
     [(''background'', Some (BoolDefault True)),
      (''margin-top'', Some (StringDefault ''6.25mm'')),
      (''margin-right'', Some (StringDefault ''6.25mm'')),
      (''margin-bottom'', Some (StringDefault ''14.11mm'')),
      (''margin-left'', Some (StringDefault ''6.25mm'')),
      (''format'', Some (StringDefault ''A4''))]"

definition printBuilder :: builder where
  "printBuilder = commonOptions @
     [(''background'', Some (BoolDefault True)),
      (''margin-top'', Some (StringDefault ''6.25mm'')),
      (''margin-right'', Some (StringDefault ''6.25mm'')),
      (''margin-bottom'', Some (StringDefault ''14.11mm'')),
      (''margin-left'', Some (StringDefault ''6.25mm'')),
      (''format'', Some (StringDefault ''Letter'')),
      (''landscape'', Some (BoolDefault False)),
      (''display-header-footer'', Some (BoolDefault False)),
      (''header-template'', Some (StringDefault [])),
      (''footer-template'', Some (StringDefault []))]"

section \<open>Option objects handed to the browser engine\<close>

record launchOptions =
  args :: "string list"

record navigationOptions =
  nav_timeout :: int
  nav_waitUntil :: string

record cookieParam =
  c_name :: string
  c_value :: string
  c_url :: string

record margins =
  m_top :: string
  m_right :: string
  m_bottom :: string
  m_left :: string

text \<open>
  The object literal passed to \<^verbatim>\<open>page.pdf\<close>. \<open>pdf_path = None\<close> is JavaScript's
  \<^verbatim>\<open>null\<close>; \<open>pdf_headerTemplate = None\<close> is a property the literal does not have
  (the batch loop sets no header template).
\<close>

record pdfOptions =
  pdf_path :: "string option"
  pdf_format :: string
  pdf_landscape :: bool
  pdf_printBackground :: bool
  pdf_margin :: margins
  pdf_displayHeaderFooter :: bool
  pdf_headerTemplate :: "string option"
  pdf_footerTemplate :: string

record screenshotOptions =
  shot_path :: "string option"
  shot_fullPage :: bool
  shot_omitBackground :: bool

text \<open>
  The argument of \<^verbatim>\<open>page.setViewport\<close>. A dimension is \<open>Some n\<close> for the number
  \<open>n\<close>, and \<open>None\<close> for a \<^verbatim>\<open>parseInt\<close> result that is not computed here.
\<close>

record viewportSize =
  vp_width :: "nat option"
  vp_height :: "nat option"

section \<open>JavaScript values and string primitives\<close>

datatype error = Error string | TypeError string

text \<open>Truthiness of an optional string: \<^verbatim>\<open>undefined\<close> and \<^verbatim>\<open>""\<close> are falsy.\<close>

fun truthy :: "string option \<Rightarrow> bool" where
  "truthy None = False"
| "truthy (Some s) = (s \<noteq> [])"

text \<open>\<^verbatim>\<open>x || null\<close> for an optional string.\<close>

definition orNull :: "string option \<Rightarrow> string option" where
  "orNull x = (if truthy x then x else None)"

text \<open>\<^verbatim>\<open>s.indexOf(c)\<close> for a one-character needle: the first position, or -1.\<close>

definition indexOf :: "string \<Rightarrow> char \<Rightarrow> int" where
  "indexOf s c = (if c \<in> set s then int (length (takeWhile (\<lambda>x. x \<noteq> c) s)) else - 1)"

text \<open>
  \<^verbatim>\<open>s.substr(start, length)\<close> and \<^verbatim>\<open>s.substr(start)\<close>: a negative start counts
  from the end of the string, a negative length is empty.
\<close>

definition substrStart :: "string \<Rightarrow> int \<Rightarrow> nat" where
  "substrStart s start =
     (if start < 0 then nat (max 0 (int (length s) + start)) else nat start)"

definition substr :: "string \<Rightarrow> int \<Rightarrow> int \<Rightarrow> string" where
  "substr s start len = take (nat len) (drop (substrStart s start) s)"

definition substrFrom :: "string \<Rightarrow> int \<Rightarrow> string" where
  "substrFrom s start = drop (substrStart s start) s"

section \<open>The option translators\<close>

text \<open>
  \<^verbatim>\<open>function buildLaunchOptions({ sandbox })\<close>: \<^verbatim>\<open>args\<close> starts empty and the two
  flags are pushed when \<^verbatim>\<open>sandbox === false\<close>.
\<close>

definition buildLaunchOptions :: "argv \<Rightarrow> launchOptions" where
  "buildLaunchOptions argv =
     \<lparr>args = (if sandbox argv = False
              then [] @ [''--no-sandbox'', ''--disable-setuid-sandbox'']
              else [])\<rparr>"

definition buildNavigationOptions :: "argv \<Rightarrow> navigationOptions" where
  "buildNavigationOptions argv =
     \<lparr>nav_timeout = timeout argv, nav_waitUntil = waitUntil argv\<rparr>"

text \<open>
  \<^verbatim>\<open>function buildCookies({ url, cookie })\<close> maps the one-element array
  \<^verbatim>\<open>[cookie]\<close>. The \<^verbatim>\<open>throw\<close> is the \<open>Inl\<close> branch; calling \<^verbatim>\<open>indexOf\<close> on
  \<^verbatim>\<open>undefined\<close> is a TypeError.
\<close>

definition buildCookies :: "argv \<Rightarrow> error + cookieParam list" where
  "buildCookies argv =
     (case cookie argv of
        None \<Rightarrow> Inl (TypeError ''Cannot read properties of undefined'')
      | Some cookieString \<Rightarrow>
          (let delimiterOffset = indexOf cookieString (CHR '':'') in
           if delimiterOffset = - 1
           then Inl (Error ''cookie must contain : delimiter'')
           else Inr [\<lparr>c_name = substr cookieString 0 delimiterOffset,
                      c_value = substrFrom cookieString (delimiterOffset + 1),
                      c_url = url argv\<rparr>]))"

section \<open>The browser engine and the process, as an event log\<close>

text \<open>
  Everything the handlers do to the outside goes through a call: to the browser engine
  (\<^verbatim>\<open>puppeteer.launch\<close>, \<^verbatim>\<open>browser.newPage\<close>, \<^verbatim>\<open>page.setCookie\<close>,
  \<^verbatim>\<open>page.setViewport\<close>, \<^verbatim>\<open>page.goto\<close>, \<^verbatim>\<open>page.pdf\<close>, \<^verbatim>\<open>page.screenshot\<close>,
  \<^verbatim>\<open>browser.close\<close>) or to the process (\<^verbatim>\<open>process.stdout.write\<close>, \<^verbatim>\<open>sleep\<close>,
  \<^verbatim>\<open>console.log\<close>). The engine writes the rendered bytes to a file exactly when the
  \<^verbatim>\<open>path\<close> of a render call is not \<^verbatim>\<open>null\<close>; the handlers themselves write no file.
\<close>

type_synonym buffer = "8 word list"

datatype call =
    Launch launchOptions
  | NewPage
  | SetCookie "cookieParam list"
  | SetViewport viewportSize
  | Goto string navigationOptions
  | Pdf pdfOptions
  | Screenshot screenshotOptions
  | StdoutWrite buffer
  | Sleep nat
  | Close
  | ConsoleLog string error

text \<open>
  An awaited call resolves or rejects. The value it resolves to matters for the two
  render calls only: the byte buffer.
\<close>

datatype reply = Resolved buffer | Rejected error

type_synonym event = "call \<times> reply"

record pdfObjectRec =
  isLandscape :: bool
  entryFooterTemplate :: string
  footerHeight :: string

text \<open>
  One element of the batch file's \<^verbatim>\<open>data\<close> array, with the fields and types of the
  documented schema; \<open>entryFooterTemplate\<close> is \<^verbatim>\<open>pdfObject.footerTemplate\<close>.
\<close>

record batchEntry =
  htmlFile :: string
  tmpPDFFile :: string
  pdfObject :: pdfObjectRec

text \<open>
  What the code does not decide. \<open>isUrl\<close>, \<open>parseUrl\<close> and \<open>fileUrl\<close> are the three
  imported packages (\<open>parseUrl w u\<close> is \<^verbatim>\<open>parseUrl(u).toString()\<close>). \<open>readBatch\<close> is
  \<^verbatim>\<open>JSON.parse(fs.readFileSync(path))["data"]\<close>: the error that reading or parsing
  raises, or the \<^verbatim>\<open>data\<close> array of a batch file of the documented schema, or
  \<open>None\<close> for \<^verbatim>\<open>undefined\<close>, when the document has no \<^verbatim>\<open>data\<close>. \<open>respond\<close> is the
  answer to a call, which may depend on everything that happened before it.
\<close>

record world =
  isUrl :: "string \<Rightarrow> bool"
  parseUrl :: "string \<Rightarrow> string"
  fileUrl :: "string \<Rightarrow> string"
  readBatch :: "string \<Rightarrow> error + batchEntry list option"
  respond :: "event list \<Rightarrow> call \<Rightarrow> reply"

text \<open>
  An \<^verbatim>\<open>async\<close> function body: from the log so far to its result and the extended
  log. It returns, throws, or ends the process (\<^verbatim>\<open>process.exit\<close>).
\<close>

datatype 'a result = Ok 'a | Throw error | Exit nat

type_synonym 'a prog = "event list \<Rightarrow> 'a result \<times> event list"

definition ret :: "'a \<Rightarrow> 'a prog" where
  "ret a tr = (Ok a, tr)"

definition throw :: "error \<Rightarrow> 'a prog" where
  "throw e tr = (Throw e, tr)"

definition processExit :: "nat \<Rightarrow> 'a prog" where
  "processExit n tr = (Exit n, tr)"

definition bindP :: "'a prog \<Rightarrow> ('a \<Rightarrow> 'b prog) \<Rightarrow> 'b prog" where
  "bindP m f tr =
     (case m tr of
        (Ok a, tr') \<Rightarrow> f a tr'
      | (Throw e, tr') \<Rightarrow> (Throw e, tr')
      | (Exit n, tr') \<Rightarrow> (Exit n, tr'))"

text \<open>\<^verbatim>\<open>try { m } catch (err) { h(err) }\<close>: only a throw is caught.\<close>

definition catchP :: "'a prog \<Rightarrow> (error \<Rightarrow> 'a prog) \<Rightarrow> 'a prog" where
  "catchP m h tr =
     (case m tr of
        (Throw e, tr') \<Rightarrow> h e tr'
      | (Ok a, tr') \<Rightarrow> (Ok a, tr')
      | (Exit n, tr') \<Rightarrow> (Exit n, tr'))"

definition await :: "world \<Rightarrow> call \<Rightarrow> buffer prog" where
  "await w c tr =
     (case respond w tr c of
        Resolved b \<Rightarrow> (Ok b, tr @ [(c, Resolved b)])
      | Rejected e \<Rightarrow> (Throw e, tr @ [(c, Rejected e)]))"

text \<open>A call that cannot fail (\<^verbatim>\<open>sleep\<close>, \<^verbatim>\<open>console.log\<close>).\<close>

definition emit :: "call \<Rightarrow> unit prog" where
  "emit c tr = (Ok (), tr @ [(c, Resolved [])])"

definition liftE :: "error + 'a \<Rightarrow> 'a prog" where
  "liftE x = (case x of Inl e \<Rightarrow> throw e | Inr a \<Rightarrow> ret a)"

text \<open>A handler starts with an empty log.\<close>

definition outcome :: "'a prog \<Rightarrow> 'a result" where
  "outcome p = fst (p [])"

definition trace :: "'a prog \<Rightarrow> event list" where
  "trace p = snd (p [])"

section \<open>The single-document commands\<close>

text \<open>
  \<^verbatim>\<open>const url = isUrl(argv.url) ? parseUrl(argv.url).toString() : fileUrl(argv.url);\<close>
  in \<^verbatim>\<open>print\<close> and in \<^verbatim>\<open>screenshot\<close>.
\<close>

definition targetUrl :: "world \<Rightarrow> argv \<Rightarrow> string" where
  "targetUrl w argv =
     (if isUrl w (url argv) then parseUrl w (url argv) else fileUrl w (url argv))"

text \<open>
  \<^verbatim>\<open>if (argv.cookie) { await page.setCookie(...buildCookies(argv)); }\<close>
  in \<^verbatim>\<open>print\<close> and in \<^verbatim>\<open>screenshot\<close>.
\<close>

definition setCookies :: "world \<Rightarrow> argv \<Rightarrow> unit prog" where
  "setCookies w argv =
     (if truthy (cookie argv)
      then bindP (liftE (buildCookies argv)) (\<lambda>cookies.
           bindP (await w (SetCookie cookies)) (\<lambda>_. ret ()))
      else ret ())"

text \<open>\<^verbatim>\<open>if (!argv.output) { await process.stdout.write(buffer); }\<close>\<close>

definition writeStdout :: "world \<Rightarrow> argv \<Rightarrow> buffer \<Rightarrow> unit prog" where
  "writeStdout w argv buffer =
     (if \<not> truthy (outputArg argv)
      then bindP (await w (StdoutWrite buffer)) (\<lambda>_. ret ())
      else ret ())"

text \<open>The object literal that \<^verbatim>\<open>print\<close> passes to \<^verbatim>\<open>page.pdf\<close>.\<close>

definition printPdfOptions :: "argv \<Rightarrow> pdfOptions" where
  "printPdfOptions argv =
     \<lparr>pdf_path = orNull (outputArg argv),
      pdf_format = format argv,
      pdf_landscape = landscape argv,
      pdf_printBackground = background argv,
      pdf_margin = \<lparr>m_top = marginTop argv, m_right = marginRight argv,
                     m_bottom = marginBottom argv, m_left = marginLeft argv\<rparr>,
      pdf_displayHeaderFooter = displayHeaderFooter argv,
      pdf_headerTemplate = Some (headerTemplate argv),
      pdf_footerTemplate = footerTemplate argv\<rparr>"

definition print :: "world \<Rightarrow> argv \<Rightarrow> unit prog" where
  "print w argv =
     bindP (await w (Launch (buildLaunchOptions argv))) (\<lambda>_.
     bindP (await w NewPage) (\<lambda>_.
     bindP (setCookies w argv) (\<lambda>_.
     bindP (await w (Goto (targetUrl w argv) (buildNavigationOptions argv))) (\<lambda>_.
     bindP (await w (Pdf (printPdfOptions argv))) (\<lambda>buffer.
     bindP (writeStdout w argv buffer) (\<lambda>_.
     bindP (await w Close) (\<lambda>_. ret ())))))))"

text \<open>
  The viewport pattern \<^verbatim>\<open>/^(?<width>\d+)[xX](?<height>\d+)$/\<close>. \<^verbatim>\<open>\d\<close> is an
  ASCII digit. The first group is greedy and the character after it must not be a
  digit, so the group is the longest run of digits at the start.
\<close>

definition isDigit :: "char \<Rightarrow> bool" where
  "isDigit c = (48 \<le> (of_char c :: nat) \<and> (of_char c :: nat) \<le> 57)"

definition viewportMatch :: "string \<Rightarrow> (string \<times> string) option" where
  "viewportMatch s =
     (let width = takeWhile isDigit s in
      case dropWhile isDigit s of
        [] \<Rightarrow> None
      | x # height \<Rightarrow>
          if width \<noteq> [] \<and> (x = CHR ''x'' \<or> x = CHR ''X'') \<and>
             height \<noteq> [] \<and> list_all isDigit height
          then Some (width, height) else None)"

definition decimal :: "string \<Rightarrow> nat" where
  "decimal s = foldl (\<lambda>n c. 10 * n + (of_char c - 48)) 0 s"

text \<open>
  \<^verbatim>\<open>parseInt\<close> on a non-empty string of decimal digits whose value a JavaScript
  number holds exactly (up to \<open>2 ^ 53\<close>): the value. \<open>None\<close> is every other case, which
  this development does not compute (sign, radix prefix, trailing text, \<^verbatim>\<open>NaN\<close>,
  rounding to a double).
\<close>

definition parseInt :: "string \<Rightarrow> nat option" where
  "parseInt s =
     (if s \<noteq> [] \<and> list_all isDigit s \<and> decimal s \<le> 2 ^ 53
      then Some (decimal s) else None)"

text \<open>The \<^verbatim>\<open>if (argv.viewport) { ... }\<close> block of \<^verbatim>\<open>screenshot\<close>.\<close>

definition applyViewport :: "world \<Rightarrow> argv \<Rightarrow> unit prog" where
  "applyViewport w argv =
     (case viewport argv of
        None \<Rightarrow> ret ()
      | Some v \<Rightarrow>
          if truthy (Some v)
          then (case viewportMatch v of
                  None \<Rightarrow> processExit 1
                | Some (w', h') \<Rightarrow>
                    bindP (await w (SetViewport
                       \<lparr>vp_width = parseInt w', vp_height = parseInt h'\<rparr>)) (\<lambda>_. ret ()))
          else ret ())"

definition screenshotOptionsOf :: "argv \<Rightarrow> screenshotOptions" where
  "screenshotOptionsOf argv =
     \<lparr>shot_path = orNull (outputArg argv),
      shot_fullPage = fullPage argv,
      shot_omitBackground = omitBackground argv\<rparr>"

definition screenshot :: "world \<Rightarrow> argv \<Rightarrow> unit prog" where
  "screenshot w argv =
     bindP (await w (Launch (buildLaunchOptions argv))) (\<lambda>_.
     bindP (await w NewPage) (\<lambda>_.
     bindP (applyViewport w argv) (\<lambda>_.
     bindP (setCookies w argv) (\<lambda>_.
     bindP (await w (Goto (targetUrl w argv) (buildNavigationOptions argv))) (\<lambda>_.
     bindP (await w (Screenshot (screenshotOptionsOf argv))) (\<lambda>buffer.
     bindP (writeStdout w argv buffer) (\<lambda>_.
     bindP (await w Close) (\<lambda>_. ret ()))))))))"

section \<open>The batch command\<close>

text \<open>
  \<^verbatim>\<open>.replace(new RegExp('\\\\\"', 'g'), '"')\<close>: the pattern is a backslash followed
  by a double quote; every occurrence, left to right, becomes a double quote.
\<close>

fun unescapeQuotes :: "string \<Rightarrow> string" where
  "unescapeQuotes (a # b # s) =
     (if a = CHR 0x5C \<and> b = CHR 0x22 then CHR 0x22 # unescapeQuotes s
      else a # unescapeQuotes (b # s))"
| "unescapeQuotes s = s"

text \<open>\<^verbatim>\<open>const displayFooter = !!pdf["pdfObject"]["footerTemplate"];\<close>\<close>

definition displayFooter :: "batchEntry \<Rightarrow> bool" where
  "displayFooter pdf = truthy (Some (entryFooterTemplate (pdfObject pdf)))"

text \<open>The object literal that the batch loop passes to \<^verbatim>\<open>page.pdf\<close>.\<close>

definition bulkPdfOptions :: "argv \<Rightarrow> batchEntry \<Rightarrow> pdfOptions" where
  "bulkPdfOptions argv pdf =
     \<lparr>pdf_path = Some (tmpPDFFile pdf),
      pdf_format = format argv,
      pdf_landscape = isLandscape (pdfObject pdf),
      pdf_printBackground = True,
      pdf_margin = \<lparr>m_top = marginTop argv, m_right = marginRight argv,
                     m_bottom = (if displayFooter pdf then footerHeight (pdfObject pdf)
                                 else marginBottom argv),
                     m_left = marginLeft argv\<rparr>,
      pdf_displayHeaderFooter = displayFooter pdf,
      pdf_headerTemplate = None,
      pdf_footerTemplate = unescapeQuotes (entryFooterTemplate (pdfObject pdf))\<rparr>"

text \<open>
  The \<^verbatim>\<open>for (const pdf of config)\<close> loop over an array. In \<open>bulkPrint\<close>, iterating
  \<^verbatim>\<open>undefined\<close> is a TypeError, raised after the browser was launched.
\<close>

fun bulkLoop :: "world \<Rightarrow> argv \<Rightarrow> batchEntry list \<Rightarrow> unit prog" where
  "bulkLoop w argv [] = ret ()"
| "bulkLoop w argv (pdf # config) =
     bindP (await w (Goto (fileUrl w (htmlFile pdf)) (buildNavigationOptions argv))) (\<lambda>_.
     bindP (await w (Pdf (bulkPdfOptions argv pdf))) (\<lambda>buffer.
     bindP (emit (Sleep 20)) (\<lambda>_.
     bulkLoop w argv config)))"

definition bulkPrint :: "world \<Rightarrow> argv \<Rightarrow> unit prog" where
  "bulkPrint w argv =
     bindP (liftE (readBatch w (batchFile argv))) (\<lambda>config.
     bindP (await w (Launch (buildLaunchOptions argv))) (\<lambda>_.
     bindP (await w NewPage) (\<lambda>_.
     bindP (case config of
              None \<Rightarrow> throw (TypeError ''config is not iterable'')
            | Some entries \<Rightarrow> bulkLoop w argv entries) (\<lambda>_.
     bindP (await w Close) (\<lambda>_. ret ())))))"

section \<open>The command handlers\<close>

text \<open>
  \<^verbatim>\<open>try { await f(argv); } catch (err) { console.log(prefix, err); process.exit(1); }\<close>
\<close>

definition handler :: "string \<Rightarrow> unit prog \<Rightarrow> unit prog" where
  "handler prefix body =
     catchP body (\<lambda>err. bindP (emit (ConsoleLog prefix err)) (\<lambda>_. processExit 1))"

definition bulkPrintHandler :: "world \<Rightarrow> argv \<Rightarrow> unit prog" where
  "bulkPrintHandler w argv = handler ''Failed to generate pdf:'' (bulkPrint w argv)"

definition printHandler :: "world \<Rightarrow> argv \<Rightarrow> unit prog" where
  "printHandler w argv = handler ''Failed to generate pdf:'' (print w argv)"

definition screenshotHandler :: "world \<Rightarrow> argv \<Rightarrow> unit prog" where
  "screenshotHandler w argv = handler ''Failed to take screenshot:'' (screenshot w argv)"

section \<open>Sample inputs\<close>

text \<open>
  \<^verbatim>\<open>print https://example.com\<close> with every flag at its declared default (the
  fields of the other commands at theirs).
\<close>

definition defaultArgv :: argv where
  "defaultArgv =
     \<lparr>sandbox = False, timeout = 30 * 1000, waitUntil = ''load'', cookie = None,
      url = ''https://example.com'', outputArg = None, batchFile = ''batch.json'',
      background = True,
      marginTop = ''6.25mm'', marginRight = ''6.25mm'', marginBottom = ''14.11mm'',
      marginLeft = ''6.25mm'', format = ''Letter'', landscape = False,
      displayHeaderFooter = False, headerTemplate = [], footerTemplate = [],
      fullPage = True, omitBackground = False, viewport = None\<rparr>"

definition footerEntry :: batchEntry where
  "footerEntry =
     \<lparr>htmlFile = ''a.html'', tmpPDFFile = ''a.pdf'',
      pdfObject = \<lparr>isLandscape = True, entryFooterTemplate = ''<p>page</p>'',
                    footerHeight = ''20mm''\<rparr>\<rparr>"

definition plainEntry :: batchEntry where
  "plainEntry =
     \<lparr>htmlFile = ''b.html'', tmpPDFFile = ''b.pdf'',
      pdfObject = \<lparr>isLandscape = False, entryFooterTemplate = [],
                    footerHeight = ''20mm''\<rparr>\<rparr>"

definition pdfBytes :: buffer where
  "pdfBytes = [0x25, 0x50, 0x44, 0x46]"

text \<open>
  Sample environments. In all of them a target is a URL when it starts with a scheme
  and two slashes, and a path becomes a file URL by prefixing. In \<open>calmWorld\<close> every
  call resolves; in \<open>timeoutWorld\<close> navigation rejects; in \<open>renderFailWorld\<close> the render
  rejects. \<open>lowerCaseWorld\<close> has a URL parser that serialises in lower case, the way
  the \<^verbatim>\<open>url-parse\<close> package normalises scheme and host.
\<close>

definition toLowerAscii :: "char \<Rightarrow> char" where
  "toLowerAscii c =
     (if 65 \<le> (of_char c :: nat) \<and> (of_char c :: nat) \<le> 90
      then char_of ((of_char c :: nat) + 32) else c)"

definition sampleIsUrl :: "string \<Rightarrow> bool" where
  "sampleIsUrl u =
     (map toLowerAscii (take 7 u) = ''http://'' \<or> map toLowerAscii (take 8 u) = ''https://'')"

definition sampleFileUrl :: "string \<Rightarrow> string" where
  "sampleFileUrl p = ''file://'' @ p"

definition sampleReadBatch :: "string \<Rightarrow> error + batchEntry list option" where
  "sampleReadBatch p =
     (if p = ''batch.json'' then Inr (Some [footerEntry, plainEntry])
      else Inl (Error ''ENOENT''))"

definition calmWorld :: world where
  "calmWorld =
     \<lparr>isUrl = sampleIsUrl, parseUrl = (\<lambda>u. u), fileUrl = sampleFileUrl,
      readBatch = sampleReadBatch,
      respond = (\<lambda>tr c. Resolved pdfBytes)\<rparr>"

definition timeoutWorld :: world where
  "timeoutWorld =
     \<lparr>isUrl = sampleIsUrl, parseUrl = (\<lambda>u. u), fileUrl = sampleFileUrl,
      readBatch = sampleReadBatch,
      respond = (\<lambda>tr c. case c of
                   Goto u n \<Rightarrow> Rejected (Error ''Navigation timeout exceeded'')
                 | _ \<Rightarrow> Resolved pdfBytes)\<rparr>"

definition renderFailWorld :: world where
  "renderFailWorld =
     \<lparr>isUrl = sampleIsUrl, parseUrl = (\<lambda>u. u), fileUrl = sampleFileUrl,
      readBatch = sampleReadBatch,
      respond = (\<lambda>tr c. case c of
                   Pdf opts \<Rightarrow> Rejected (Error ''Printing failed'')
                 | Screenshot opts \<Rightarrow> Rejected (Error ''Capture failed'')
                 | _ \<Rightarrow> Resolved pdfBytes)\<rparr>"

definition lowerCaseWorld :: world where
  "lowerCaseWorld =
     \<lparr>isUrl = sampleIsUrl, parseUrl = map toLowerAscii, fileUrl = sampleFileUrl,
      readBatch = sampleReadBatch,
      respond = (\<lambda>tr c. Resolved pdfBytes)\<rparr>"

section \<open>Invariants of a log\<close>

text \<open>\<open>keeps P p\<close>: every event that \<open>p\<close> adds to a log satisfies \<open>P\<close>.\<close>

definition keeps :: "(event \<Rightarrow> bool) \<Rightarrow> 'a prog \<Rightarrow> bool" where
  "keeps P p = (\<forall>tr. (\<forall>e \<in> set tr. P e) \<longrightarrow> (\<forall>e \<in> set (snd (p tr)). P e))"

text \<open>The browser was closed: the log has a \<^verbatim>\<open>browser.close()\<close> call.\<close>

definition closed :: "event list \<Rightarrow> bool" where
  "closed tr = (Close \<in> set (map fst tr))"

text \<open>
  The close call is the last call of the log, and the only close in it.
\<close>

definition lastCallIsClose :: "event list \<Rightarrow> bool" where
  "lastCallIsClose tr = (tr \<noteq> [] \<and> fst (last tr) = Close \<and> \<not> closed (butlast tr))"

text \<open>
  The discipline that the three operations do follow. A run that returns has closed
  the browser as its last call, once, and no call of it rejected. Whenever the browser
  is closed at all, the close is the last call. A run in which a call other than the
  close itself rejected has not closed the browser and throws the error of that call.
  A run that ended the process has not closed the browser.
\<close>

definition closeOnlyOnSuccess :: "unit prog \<Rightarrow> bool" where
  "closeOnlyOnSuccess p =
     ((outcome p = Ok () \<longrightarrow>
         lastCallIsClose (trace p) \<and> (\<forall>c e. (c, Rejected e) \<notin> set (trace p))) \<and>
      (closed (trace p) \<longrightarrow> lastCallIsClose (trace p)) \<and>
      (\<forall>c e. c \<noteq> Close \<and> (c, Rejected e) \<in> set (trace p) \<longrightarrow>
         \<not> closed (trace p) \<and> outcome p = Throw e) \<and>
      (\<forall>n. outcome p = Exit n \<longrightarrow> \<not> closed (trace p)))"

text \<open>
  What a command handler \<open>h\<close> makes of its body: an error thrown by the body is
  reported through \<^verbatim>\<open>console.log\<close> with the handler's prefix, as the one further
  call, and the process exits with status 1; a body that returns or that ended the
  process is left as it is.
\<close>

definition reportsAndExits :: "string \<Rightarrow> unit prog \<Rightarrow> unit prog \<Rightarrow> bool" where
  "reportsAndExits prefix body h =
     ((\<forall>e. outcome body = Throw e \<longrightarrow>
         outcome h = Exit 1 \<and>
         trace h = trace body @ [(ConsoleLog prefix e, Resolved [])]) \<and>
      (outcome body = Ok () \<longrightarrow> outcome h = Ok () \<and> trace h = trace body) \<and>
      (\<forall>n. outcome body = Exit n \<longrightarrow> outcome h = Exit n \<and> trace h = trace body))"

text \<open>
  Devices for proving the discipline. A log is \<open>clean\<close> when it has no close and no
  rejected call. A \<open>quiet\<close> step takes a clean log to a clean log when it returns or
  ends the process; when it throws, the log has no close and every rejected call in it
  rejected with the error thrown. A \<open>disciplined\<close> body, run on a clean log, ends as
  \<open>goodFinal\<close> says.
\<close>

definition clean :: "event list \<Rightarrow> bool" where
  "clean tr = (\<not> closed tr \<and> (\<forall>c e. (c, Rejected e) \<notin> set tr))"

definition quiet :: "'a prog \<Rightarrow> bool" where
  "quiet p =
     (\<forall>tr. clean tr \<longrightarrow>
        (case p tr of
           (Ok a, tr') \<Rightarrow> clean tr'
         | (Throw e, tr') \<Rightarrow>
             \<not> closed tr' \<and> (\<forall>c e'. (c, Rejected e') \<in> set tr' \<longrightarrow> e' = e)
         | (Exit n, tr') \<Rightarrow> clean tr'))"

definition goodFinal :: "unit result \<Rightarrow> event list \<Rightarrow> bool" where
  "goodFinal r tr =
     (case r of
        Ok u \<Rightarrow> (\<exists>tr0 b. tr = tr0 @ [(Close, Resolved b)] \<and> clean tr0)
      | Throw e \<Rightarrow>
          (\<not> closed tr \<and> (\<forall>c e'. (c, Rejected e') \<in> set tr \<longrightarrow> e' = e)) \<or>
          (\<exists>tr0. tr = tr0 @ [(Close, Rejected e)] \<and> clean tr0)
      | Exit n \<Rightarrow> clean tr)"

definition disciplined :: "unit prog \<Rightarrow> bool" where
  "disciplined p = (\<forall>tr. clean tr \<longrightarrow> goodFinal (fst (p tr)) (snd (p tr)))"

text \<open>A body only ever appends to the log.\<close>

definition growing :: "'a prog \<Rightarrow> bool" where
  "growing p = (\<forall>tr. \<exists>new. snd (p tr) = tr @ new)"

text \<open>
  The viewport pattern in words: \<open>v\<close> is decimal digits \<open>ws\<close>, then \<^verbatim>\<open>x\<close> or
  \<^verbatim>\<open>X\<close>, then decimal digits \<open>hs\<close>.
\<close>

definition viewportForm :: "string \<Rightarrow> string \<Rightarrow> string \<Rightarrow> bool" where
  "viewportForm v ws hs =
     (ws \<noteq> [] \<and> hs \<noteq> [] \<and> list_all isDigit ws \<and> list_all isDigit hs \<and>
      (v = ws @ CHR ''x'' # hs \<or> v = ws @ CHR ''X'' # hs))"

section \<open>Facts about the string primitives\<close>

lemma indexOf_found:
  "c \<in> set s \<Longrightarrow> indexOf s c = int (length (takeWhile (\<lambda>x. x \<noteq> c) s))"
  by (simp add: indexOf_def)

lemma indexOf_absent: "c \<notin> set s \<Longrightarrow> indexOf s c = - 1"
  by (simp add: indexOf_def)

lemma substr_prefix: "substr s 0 (int n) = take n s"
  by (simp add: substr_def substrStart_def)

lemma substrFrom_suffix: "substrFrom s (int n + 1) = drop (Suc n) s"
  by (simp add: substrFrom_def substrStart_def nat_add_distrib)

section \<open>Rules for log invariants\<close>

lemma keeps_ret: "keeps P (ret a)"
  by (simp add: keeps_def ret_def)

lemma keeps_throw: "keeps P (throw e)"
  by (simp add: keeps_def throw_def)

lemma keeps_processExit: "keeps P (processExit n)"
  by (simp add: keeps_def processExit_def)

lemma keeps_await: "(\<And>r. P (c, r)) \<Longrightarrow> keeps P (await w c)"
  by (auto simp: keeps_def await_def split: reply.splits)

lemma keeps_emit: "P (c, Resolved []) \<Longrightarrow> keeps P (emit c)"
  by (simp add: keeps_def emit_def)

lemma keeps_liftE: "keeps P (liftE x)"
  by (cases x) (simp_all add: liftE_def keeps_ret keeps_throw)

lemma keeps_bindP:
  assumes "keeps P m" and "\<And>a. keeps P (f a)"
  shows "keeps P (bindP m f)"
  unfolding keeps_def
proof (intro allI impI)
  fix tr
  assume tr: "\<forall>e \<in> set tr. P e"
  obtain r tr' where m: "m tr = (r, tr')" by (cases "m tr")
  have tr': "\<forall>e \<in> set tr'. P e"
    using assms(1) tr m unfolding keeps_def by (metis snd_conv)
  show "\<forall>e \<in> set (snd (bindP m f tr)). P e"
  proof (cases r)
    case (Ok a)
    have "\<forall>e \<in> set (snd (f a tr')). P e"
      using assms(2) [of a] tr' unfolding keeps_def by blast
    then show ?thesis by (simp add: bindP_def m Ok)
  next
    case (Throw e)
    then show ?thesis using tr' by (simp add: bindP_def m)
  next
    case (Exit n)
    then show ?thesis using tr' by (simp add: bindP_def m)
  qed
qed

lemma keeps_catchP:
  assumes "keeps P m" and "\<And>e. keeps P (h e)"
  shows "keeps P (catchP m h)"
  unfolding keeps_def
proof (intro allI impI)
  fix tr
  assume tr: "\<forall>e \<in> set tr. P e"
  obtain r tr' where m: "m tr = (r, tr')" by (cases "m tr")
  have tr': "\<forall>e \<in> set tr'. P e"
    using assms(1) tr m unfolding keeps_def by (metis snd_conv)
  show "\<forall>e \<in> set (snd (catchP m h tr)). P e"
  proof (cases r)
    case (Throw e)
    have "\<forall>x \<in> set (snd (h e tr')). P x"
      using assms(2) [of e] tr' unfolding keeps_def by blast
    then show ?thesis by (simp add: catchP_def m Throw)
  next
    case (Ok a)
    then show ?thesis using tr' by (simp add: catchP_def m)
  next
    case (Exit n)
    then show ?thesis using tr' by (simp add: catchP_def m)
  qed
qed

lemma keeps_trace: "keeps P p \<Longrightarrow> e \<in> set (trace p) \<Longrightarrow> P e"
  unfolding keeps_def trace_def by (drule spec [of _ "[]"]) simp

lemma keeps_setCookies:
  "(\<And>cs r. P (SetCookie cs, r)) \<Longrightarrow> keeps P (setCookies w argv)"
  by (simp add: setCookies_def keeps_bindP keeps_liftE keeps_await keeps_ret)

lemma keeps_writeStdout:
  "(\<And>r. \<not> truthy (outputArg argv) \<Longrightarrow> P (StdoutWrite b, r)) \<Longrightarrow> keeps P (writeStdout w argv b)"
  by (simp add: writeStdout_def keeps_bindP keeps_await keeps_ret)

lemma keeps_applyViewport:
  "(\<And>v r. P (SetViewport v, r)) \<Longrightarrow> keeps P (applyViewport w argv)"
  by (auto simp: applyViewport_def keeps_bindP keeps_await keeps_ret keeps_processExit
      split: option.splits)

lemma keeps_bulkLoop:
  assumes "\<And>u n r. P (Goto u n, r)"
    and "\<And>pdf r. pdf \<in> set config \<Longrightarrow> P (Pdf (bulkPdfOptions argv pdf), r)"
    and "P (Sleep 20, Resolved [])"
  shows "keeps P (bulkLoop w argv config)"
  using assms(2)
proof (induction config)
  case Nil
  show ?case by (simp add: keeps_ret)
next
  case (Cons pdf config)
  have "keeps P (bulkLoop w argv config)"
    using Cons by simp
  then show ?case
    using assms(1,3) Cons.prems
    by (simp add: keeps_bindP keeps_await keeps_emit)
qed

lemma bindP_liftE_Inr: "bindP (liftE (Inr a)) f = f a"
  by (rule ext) (simp add: bindP_def liftE_def ret_def)

lemma bindP_liftE_Inl: "bindP (liftE (Inl e)) f = throw e"
  by (rule ext) (simp add: bindP_def liftE_def throw_def)

lemma keeps_bulkPrint:
  assumes "\<And>opts r. P (Launch opts, r)" and "\<And>r. P (NewPage, r)" and "\<And>r. P (Close, r)"
    and  "\<And>u n r. P (Goto u n, r)"
    and "\<And>pdf config r. readBatch w (batchFile argv) = Inr (Some config) \<Longrightarrow>
           pdf \<in> set config \<Longrightarrow>
           P (Pdf (bulkPdfOptions argv pdf), r)"
    and "P (Sleep 20, Resolved [])"
  shows "keeps P (bulkPrint w argv)"
proof (cases "readBatch w (batchFile argv)")
  case (Inl e)
  then show ?thesis
    by (simp add: bulkPrint_def bindP_liftE_Inl keeps_throw)
next
  case (Inr config)
  have "keeps P (case config of
          None \<Rightarrow> throw (TypeError ''config is not iterable'')
        | Some entries \<Rightarrow> bulkLoop w argv entries)"
  proof (cases config)
    case None
    then show ?thesis by (simp add: keeps_throw)
  next
    case (Some entries)
    have "keeps P (bulkLoop w argv entries)"
      using assms(4,5,6) Inr Some by (intro keeps_bulkLoop) auto
    with Some show ?thesis by simp
  qed
  then show ?thesis
    using assms(1,2,3) Inr
    by (simp add: bulkPrint_def bindP_liftE_Inr keeps_bindP keeps_await keeps_ret)
qed

lemma keeps_print:
  assumes "\<And>opts r. P (Launch opts, r)" and "\<And>r. P (NewPage, r)" and "\<And>r. P (Close, r)"
    and "\<And>cs r. P (SetCookie cs, r)"
    and "\<And>n r. P (Goto (targetUrl w argv) n, r)"
    and "\<And>r. P (Pdf (printPdfOptions argv), r)"
    and "\<And>b r. \<not> truthy (outputArg argv) \<Longrightarrow> P (StdoutWrite b, r)"
  shows "keeps P (print w argv)"
  using assms
  by (simp add: print_def keeps_bindP keeps_await keeps_ret keeps_setCookies keeps_writeStdout)

lemma keeps_screenshot:
  assumes "\<And>opts r. P (Launch opts, r)" and "\<And>r. P (NewPage, r)" and "\<And>r. P (Close, r)"
    and "\<And>cs r. P (SetCookie cs, r)" and "\<And>v r. P (SetViewport v, r)"
    and "\<And>n r. P (Goto (targetUrl w argv) n, r)"
    and "\<And>r. P (Screenshot (screenshotOptionsOf argv), r)"
    and "\<And>b r. \<not> truthy (outputArg argv) \<Longrightarrow> P (StdoutWrite b, r)"
  shows "keeps P (screenshot w argv)"
  using assms
  by (simp add: screenshot_def keeps_bindP keeps_await keeps_ret keeps_setCookies
      keeps_writeStdout keeps_applyViewport)

section \<open>Rules for the close discipline\<close>

lemma quiet_ret: "quiet (ret a)"
  by (simp add: quiet_def ret_def)

lemma quiet_throw: "quiet (throw e)"
  by (simp add: quiet_def throw_def clean_def)

lemma quiet_processExit: "quiet (processExit n)"
  by (simp add: quiet_def processExit_def)

lemma quiet_liftE: "quiet (liftE x)"
  by (cases x) (simp_all add: liftE_def quiet_ret quiet_throw)

lemma quiet_await: "c \<noteq> Close \<Longrightarrow> quiet (await w c)"
  by (auto simp: quiet_def await_def clean_def closed_def split: reply.splits)

lemma quiet_emit: "c \<noteq> Close \<Longrightarrow> quiet (emit c)"
  by (auto simp: quiet_def emit_def clean_def closed_def)

lemma quiet_bindP:
  assumes "quiet m" and "\<And>a. quiet (f a)"
  shows "quiet (bindP m f)"
  unfolding quiet_def
proof (intro allI impI)
  fix tr
  assume tr: "clean tr"
  obtain r tr' where m: "m tr = (r, tr')" by (cases "m tr")
  show "case bindP m f tr of
          (Ok a, tr') \<Rightarrow> clean tr'
        | (Throw e, tr') \<Rightarrow>
            \<not> closed tr' \<and> (\<forall>c e'. (c, Rejected e') \<in> set tr' \<longrightarrow> e' = e)
        | (Exit n, tr') \<Rightarrow> clean tr'"
  proof (cases r)
    case (Ok a)
    with assms(1) tr m have "clean tr'" by (auto simp: quiet_def)
    with assms(2) [of a] show ?thesis
      by (simp add: bindP_def m Ok quiet_def)
  next
    case (Throw e)
    with assms(1) tr m show ?thesis by (auto simp: quiet_def bindP_def)
  next
    case (Exit n)
    with assms(1) tr m show ?thesis by (auto simp: quiet_def bindP_def)
  qed
qed

lemma disciplined_close: "disciplined (bindP (await w Close) (\<lambda>_. ret ()))"
  by (auto simp: disciplined_def goodFinal_def bindP_def await_def ret_def
      split: reply.splits)

lemma disciplined_bindP:
  assumes "quiet m" and "\<And>a. disciplined (f a)"
  shows "disciplined (bindP m f)"
  unfolding disciplined_def
proof (intro allI impI)
  fix tr
  assume tr: "clean tr"
  obtain r tr' where m: "m tr = (r, tr')" by (cases "m tr")
  show "goodFinal (fst (bindP m f tr)) (snd (bindP m f tr))"
  proof (cases r)
    case (Ok a)
    with assms(1) tr m have "clean tr'" by (auto simp: quiet_def)
    with assms(2) [of a] show ?thesis
      by (simp add: bindP_def m Ok disciplined_def)
  next
    case (Throw e)
    with assms(1) tr m show ?thesis by (auto simp: quiet_def bindP_def goodFinal_def)
  next
    case (Exit n)
    with assms(1) tr m show ?thesis by (auto simp: quiet_def bindP_def goodFinal_def)
  qed
qed

lemma clean_snoc_close:
  assumes "clean tr0"
  shows "lastCallIsClose (tr0 @ [(Close, r)])" and "closed (tr0 @ [(Close, r)])"
    and "(c, Rejected e) \<in> set (tr0 @ [(Close, r)]) \<Longrightarrow> c = Close \<and> r = Rejected e"
  using assms by (auto simp: clean_def closed_def lastCallIsClose_def)

lemma disciplined_run:
  assumes "disciplined p"
  shows "closeOnlyOnSuccess p"
proof -
  obtain r tr where run: "p [] = (r, tr)" by (cases "p []")
  have "clean []" by (simp add: clean_def closed_def)
  with assms run have g: "goodFinal r tr"
    unfolding disciplined_def by (metis fst_conv snd_conv)
  have o: "outcome p = r" and t: "trace p = tr"
    by (simp_all add: outcome_def trace_def run)
  show ?thesis
  proof (cases r)
    case (Ok u)
    with g obtain tr0 b where tr: "tr = tr0 @ [(Close, Resolved b)]" and c: "clean tr0"
      by (auto simp: goodFinal_def)
    have "lastCallIsClose tr" and "\<forall>c e. (c, Rejected e) \<notin> set tr"
      unfolding tr using clean_snoc_close [OF c, where r = "Resolved b"] by auto
    with Ok show ?thesis
      by (simp add: closeOnlyOnSuccess_def o t)
  next
    case (Throw e)
    with g consider
      (noclose) "\<not> closed tr" "\<forall>c e'. (c, Rejected e') \<in> set tr \<longrightarrow> e' = e"
      | (closelast) tr0 where "tr = tr0 @ [(Close, Rejected e)]" "clean tr0"
      by (auto simp: goodFinal_def)
    then show ?thesis
    proof cases
      case noclose
      with Throw show ?thesis
        by (auto simp: closeOnlyOnSuccess_def o t)
    next
      case closelast
      have "lastCallIsClose tr" and "\<forall>c e'. (c, Rejected e') \<in> set tr \<longrightarrow> c = Close"
        unfolding closelast(1)
        using clean_snoc_close [OF closelast(2), where r = "Rejected e"] by auto
      with Throw show ?thesis
        by (auto simp: closeOnlyOnSuccess_def o t)
    qed
  next
    case (Exit n)
    with g have "clean tr" by (simp add: goodFinal_def)
    with Exit show ?thesis
      by (auto simp: closeOnlyOnSuccess_def o t clean_def)
  qed
qed

lemma handler_reports: "reportsAndExits prefix body (handler prefix body)"
proof -
  obtain r tr where run: "body [] = (r, tr)" by (cases "body []")
  show ?thesis
    by (cases r)
      (simp_all add: reportsAndExits_def outcome_def trace_def handler_def catchP_def run
        bindP_def emit_def processExit_def)
qed

lemma quiet_setCookies: "quiet (setCookies w argv)"
  by (simp add: setCookies_def quiet_bindP quiet_liftE quiet_await quiet_ret)

lemma quiet_writeStdout: "quiet (writeStdout w argv b)"
  by (simp add: writeStdout_def quiet_bindP quiet_await quiet_ret)

lemma quiet_applyViewport: "quiet (applyViewport w argv)"
  by (auto simp: applyViewport_def quiet_bindP quiet_await quiet_ret quiet_processExit
      split: option.splits)

lemma quiet_bulkLoop: "quiet (bulkLoop w argv config)"
  by (induction config) (simp_all add: quiet_ret quiet_bindP quiet_await quiet_emit)

lemma print_close: "closeOnlyOnSuccess (print w argv)"
  unfolding print_def
  by (intro disciplined_run disciplined_bindP disciplined_close quiet_await quiet_setCookies
      quiet_writeStdout) simp_all

lemma screenshot_close: "closeOnlyOnSuccess (screenshot w argv)"
  unfolding screenshot_def
  by (intro disciplined_run disciplined_bindP disciplined_close quiet_await quiet_setCookies
      quiet_writeStdout quiet_applyViewport) simp_all

lemma quiet_iterate:
  "quiet (case config of
            None \<Rightarrow> throw (TypeError ''config is not iterable'')
          | Some entries \<Rightarrow> bulkLoop w argv entries)"
  by (cases config) (simp_all add: quiet_throw quiet_bulkLoop)

lemma bulkPrint_close: "closeOnlyOnSuccess (bulkPrint w argv)"
  unfolding bulkPrint_def
  by (intro disciplined_run disciplined_bindP disciplined_close quiet_await quiet_liftE
      quiet_iterate) simp_all

lemma bindP_throw: "bindP (throw e) f = throw e"
  by (rule ext) (simp add: bindP_def throw_def)

lemma cookie_error_no_close:
  assumes "truthy (cookie argv)" and "buildCookies argv = Inl err"
  shows "\<not> closed (trace (print w argv))" and "\<not> closed (trace (screenshot w argv))"
proof -
  have s: "setCookies w argv = throw err"
    using assms by (simp add: setCookies_def bindP_liftE_Inl)
  have "keeps (\<lambda>e. fst e \<noteq> Close) (print w argv)"
    by (simp add: print_def s bindP_throw keeps_bindP keeps_await keeps_throw)
  then have "\<And>e. e \<in> set (trace (print w argv)) \<Longrightarrow> fst e \<noteq> Close"
    by (rule keeps_trace)
  then show "\<not> closed (trace (print w argv))"
    by (force simp: closed_def)
  have "keeps (\<lambda>e. fst e \<noteq> Close) (screenshot w argv)"
    by (simp add: screenshot_def s bindP_throw keeps_bindP keeps_await keeps_throw
        keeps_applyViewport)
  then have "\<And>e. e \<in> set (trace (screenshot w argv)) \<Longrightarrow> fst e \<noteq> Close"
    by (rule keeps_trace)
  then show "\<not> closed (trace (screenshot w argv))"
    by (force simp: closed_def)
qed

section \<open>Rules for the growth of a log\<close>

lemma growing_ret: "growing (ret a)"
  by (simp add: growing_def ret_def)

lemma growing_throw: "growing (throw e)"
  by (simp add: growing_def throw_def)

lemma growing_processExit: "growing (processExit n)"
  by (simp add: growing_def processExit_def)

lemma growing_liftE: "growing (liftE x)"
  by (cases x) (simp_all add: liftE_def growing_ret growing_throw)

lemma growing_await: "growing (await w c)"
  by (auto simp: growing_def await_def split: reply.splits)

lemma growing_emit: "growing (emit c)"
  by (simp add: growing_def emit_def)

lemma growing_bindP:
  assumes "growing m" and "\<And>a. growing (f a)"
  shows "growing (bindP m f)"
  unfolding growing_def
proof
  fix tr
  obtain r tr' where m: "m tr = (r, tr')" by (cases "m tr")
  from assms(1) m obtain n1 where n1: "tr' = tr @ n1"
    unfolding growing_def by (metis snd_conv)
  show "\<exists>new. snd (bindP m f tr) = tr @ new"
  proof (cases r)
    case (Ok a)
    from assms(2) [of a] obtain n2 where "snd (f a tr') = tr' @ n2"
      unfolding growing_def by blast
    then show ?thesis by (simp add: bindP_def m Ok n1)
  next
    case (Throw e)
    then show ?thesis by (simp add: bindP_def m n1)
  next
    case (Exit n)
    then show ?thesis by (simp add: bindP_def m n1)
  qed
qed

lemma growing_catchP:
  assumes "growing m" and "\<And>e. growing (h e)"
  shows "growing (catchP m h)"
  unfolding growing_def
proof
  fix tr
  obtain r tr' where m: "m tr = (r, tr')" by (cases "m tr")
  from assms(1) m obtain n1 where n1: "tr' = tr @ n1"
    unfolding growing_def by (metis snd_conv)
  show "\<exists>new. snd (catchP m h tr) = tr @ new"
  proof (cases r)
    case (Throw e)
    from assms(2) [of e] obtain n2 where "snd (h e tr') = tr' @ n2"
      unfolding growing_def by blast
    then show ?thesis by (simp add: catchP_def m Throw n1)
  next
    case (Ok a)
    then show ?thesis by (simp add: catchP_def m n1)
  next
    case (Exit n)
    then show ?thesis by (simp add: catchP_def m n1)
  qed
qed

lemma growing_setCookies: "growing (setCookies w argv)"
  by (simp add: setCookies_def growing_bindP growing_liftE growing_await growing_ret)

lemma growing_writeStdout: "growing (writeStdout w argv b)"
  by (simp add: writeStdout_def growing_bindP growing_await growing_ret)

lemma bindP_processExit: "bindP (processExit n) f = processExit n"
  by (rule ext) (simp add: bindP_def processExit_def)

lemma catchP_bindP_run:
  "m tr = (Ok a, tr') \<Longrightarrow> catchP (bindP m f) h tr = catchP (f a) h tr'"
  by (simp add: catchP_def bindP_def)

section \<open>The viewport pattern\<close>

lemma isDigit_x: "\<not> isDigit (CHR ''x'')" "\<not> isDigit (CHR ''X'')"
  by (simp_all add: isDigit_def)

lemma viewportMatch_form: "viewportMatch v = Some (ws, hs) \<longleftrightarrow> viewportForm v ws hs"
proof
  assume m: "viewportMatch v = Some (ws, hs)"
  then obtain x where d: "dropWhile isDigit v = x # hs"
    and w: "ws = takeWhile isDigit v" and ne: "ws \<noteq> []" "hs \<noteq> []"
    and x: "x = CHR ''x'' \<or> x = CHR ''X''" and h: "list_all isDigit hs"
    by (auto simp: viewportMatch_def Let_def split: list.splits if_splits)
  have "v = takeWhile isDigit v @ dropWhile isDigit v" by simp
  with d w have v: "v = ws @ x # hs" by simp
  have "list_all isDigit ws"
    unfolding w list_all_iff by (auto dest: set_takeWhileD)
  with v x ne h show "viewportForm v ws hs"
    by (auto simp: viewportForm_def)
next
  assume f: "viewportForm v ws hs"
  then obtain x where v: "v = ws @ x # hs" and x: "x = CHR ''x'' \<or> x = CHR ''X''"
    and ne: "ws \<noteq> []" "hs \<noteq> []" and dw: "list_all isDigit ws" and dh: "list_all isDigit hs"
    by (auto simp: viewportForm_def)
  from x have nx: "\<not> isDigit x" using isDigit_x by auto
  from dw have all: "\<And>c. c \<in> set ws \<Longrightarrow> isDigit c" by (simp add: list_all_iff)
  have t: "takeWhile isDigit v = ws"
    unfolding v using all nx by (simp add: takeWhile_append2)
  have d: "dropWhile isDigit v = x # hs"
    unfolding v using all nx by (simp add: dropWhile_append2)
  show "viewportMatch v = Some (ws, hs)"
    using t d x ne dh by (auto simp: viewportMatch_def Let_def)
qed

lemma viewportMatch_None: "viewportMatch v = None \<longleftrightarrow> (\<forall>ws hs. \<not> viewportForm v ws hs)"
proof -
  have "viewportMatch v = None \<longleftrightarrow> (\<forall>ws hs. viewportMatch v \<noteq> Some (ws, hs))"
    by (cases "viewportMatch v") auto
  then show ?thesis by (simp add: viewportMatch_form)
qed

lemma viewportMatch_examples:
  "viewportMatch ''800x600'' = Some (''800'', ''600'')"
  "viewportMatch ''abcx600'' = None"
  "viewportMatch ''800'' = None"
  "viewportMatch [] = None"
  by (simp_all add: viewportMatch_def isDigit_def)

lemma decimal_examples: "decimal ''800'' = 800" "decimal ''600'' = 600"
  by (simp_all add: decimal_def)

section \<open>Runs in the sample environments\<close>

lemma calm_respond: "respond calmWorld tr c = Resolved pdfBytes"
  by (simp add: calmWorld_def)

lemma defaultArgv_fields:
  "cookie (defaultArgv\<lparr>url := u\<rparr>) = None" "url (defaultArgv\<lparr>url := u\<rparr>) = u"
  "outputArg (defaultArgv\<lparr>url := u\<rparr>) = None"
  "cookie defaultArgv = None" "url defaultArgv = ''https://example.com''"
  "outputArg defaultArgv = None"
  by (simp_all add: defaultArgv_def)

lemma sampleIsUrl_examples:
  "sampleIsUrl ''https://example.com''" "sampleIsUrl ''HTTP://EXAMPLE.COM/''"
  "\<not> sampleIsUrl ''page.html''"
  by code_simp+

lemma lower_example: "map toLowerAscii ''HTTP://EXAMPLE.COM/'' = ''http://example.com/''"
  by code_simp

lemma calm_print_trace:
  assumes "\<not> truthy (cookie argv)"
  shows "trace (print calmWorld argv) =
     [(Launch (buildLaunchOptions argv), Resolved pdfBytes),
      (NewPage, Resolved pdfBytes),
      (Goto (targetUrl calmWorld argv) (buildNavigationOptions argv), Resolved pdfBytes),
      (Pdf (printPdfOptions argv), Resolved pdfBytes)] @
     (if truthy (outputArg argv) then [] else [(StdoutWrite pdfBytes, Resolved pdfBytes)]) @
     [(Close, Resolved pdfBytes)]"
  using assms
  by (simp add: trace_def print_def bindP_def await_def ret_def setCookies_def
      writeStdout_def calmWorld_def)

lemma calm_bulk_trace:
  assumes "batchFile argv = ''batch.json''"
  shows "trace (bulkPrint calmWorld argv) =
     [(Launch (buildLaunchOptions argv), Resolved pdfBytes),
       (NewPage, Resolved pdfBytes),
       (Goto ''file://a.html'' (buildNavigationOptions argv), Resolved pdfBytes),
       (Pdf (bulkPdfOptions argv footerEntry), Resolved pdfBytes),
       (Sleep 20, Resolved []),
       (Goto ''file://b.html'' (buildNavigationOptions argv), Resolved pdfBytes),
       (Pdf (bulkPdfOptions argv plainEntry), Resolved pdfBytes),
       (Sleep 20, Resolved []),
       (Close, Resolved pdfBytes)]"
  using assms
  by (simp add: trace_def bulkPrint_def bindP_def await_def ret_def emit_def liftE_def
      calmWorld_def sampleReadBatch_def sampleFileUrl_def footerEntry_def plainEntry_def)

lemma lowerCase_print_trace:
  assumes "\<not> truthy (cookie argv)"
  shows "trace (print lowerCaseWorld argv) =
     [(Launch (buildLaunchOptions argv), Resolved pdfBytes),
      (NewPage, Resolved pdfBytes),
      (Goto (targetUrl lowerCaseWorld argv) (buildNavigationOptions argv), Resolved pdfBytes),
      (Pdf (printPdfOptions argv), Resolved pdfBytes)] @
     (if truthy (outputArg argv) then [] else [(StdoutWrite pdfBytes, Resolved pdfBytes)]) @
     [(Close, Resolved pdfBytes)]"
  using assms
  by (simp add: trace_def print_def bindP_def await_def ret_def setCookies_def
      writeStdout_def lowerCaseWorld_def)

lemma timeout_respond:
  "respond timeoutWorld tr c =
     (case c of Goto u n \<Rightarrow> Rejected (Error ''Navigation timeout exceeded'')
      | _ \<Rightarrow> Resolved pdfBytes)"
  by (simp add: timeoutWorld_def)

lemma timeout_printHandler_run:
  "printHandler timeoutWorld defaultArgv [] =
     (Exit 1,
      [(Launch (buildLaunchOptions defaultArgv), Resolved pdfBytes),
       (NewPage, Resolved pdfBytes),
       (Goto ''https://example.com'' (buildNavigationOptions defaultArgv),
          Rejected (Error ''Navigation timeout exceeded'')),
       (ConsoleLog ''Failed to generate pdf:'' (Error ''Navigation timeout exceeded''),
          Resolved [])])"
proof -
  have t: "targetUrl timeoutWorld defaultArgv = ''https://example.com''"
    by (simp add: targetUrl_def timeoutWorld_def defaultArgv_fields sampleIsUrl_examples)
  show ?thesis
    by (simp add: printHandler_def handler_def catchP_def print_def bindP_def await_def
        ret_def emit_def processExit_def setCookies_def defaultArgv_fields t timeout_respond)
qed

lemma renderFail_bulk_trace:
  assumes "batchFile argv = ''batch.json''"
  shows "bulkPrint renderFailWorld argv [] =
     (Throw (Error ''Printing failed''),
      [(Launch (buildLaunchOptions argv), Resolved pdfBytes),
       (NewPage, Resolved pdfBytes),
       (Goto ''file://a.html'' (buildNavigationOptions argv), Resolved pdfBytes),
       (Pdf (bulkPdfOptions argv footerEntry), Rejected (Error ''Printing failed''))])"
  using assms
  by (simp add: bulkPrint_def bindP_def await_def ret_def emit_def liftE_def
      renderFailWorld_def sampleReadBatch_def sampleFileUrl_def footerEntry_def plainEntry_def)

section \<open>The claims about the option translators\<close>

text \<open>
  C4. With \<open>sandbox = False\<close> the argument list of \<open>buildLaunchOptions\<close> contains both
  \<^verbatim>\<open>--no-sandbox\<close> and \<^verbatim>\<open>--disable-setuid-sandbox\<close>; with \<open>sandbox = True\<close> it
  contains neither of them.
\<close>

theorem buildLaunchOptions_sandbox_flags:
  "(sandbox argv = False \<longrightarrow>
      ''--no-sandbox'' \<in> set (args (buildLaunchOptions argv)) \<and>
      ''--disable-setuid-sandbox'' \<in> set (args (buildLaunchOptions argv))) \<and>
   (sandbox argv = True \<longrightarrow>
      ''--no-sandbox'' \<notin> set (args (buildLaunchOptions argv)) \<and>
      ''--disable-setuid-sandbox'' \<notin> set (args (buildLaunchOptions argv)))"
  by (simp add: buildLaunchOptions_def)

theorem buildLaunchOptions_sandbox_flags_witness:
  "sandbox defaultArgv = False \<and>
   ''--no-sandbox'' \<in> set (args (buildLaunchOptions defaultArgv)) \<and>
   ''--disable-setuid-sandbox'' \<in> set (args (buildLaunchOptions defaultArgv)) \<and>
   sandbox (defaultArgv\<lparr>sandbox := True\<rparr>) = True \<and>
   ''--no-sandbox'' \<notin> set (args (buildLaunchOptions (defaultArgv\<lparr>sandbox := True\<rparr>))) \<and>
   ''--disable-setuid-sandbox'' \<notin> set (args (buildLaunchOptions (defaultArgv\<lparr>sandbox := True\<rparr>)))"
  using buildLaunchOptions_sandbox_flags [of defaultArgv]
    buildLaunchOptions_sandbox_flags [of "defaultArgv\<lparr>sandbox := True\<rparr>"]
  by (simp add: defaultArgv_def)

text \<open>
  C3, as the code has it. For a cookie string that contains a colon, \<open>buildCookies\<close>
  returns one cookie whose name is the text before the first colon, whose value is
  everything after that colon (later colons included), and whose URL is the \<open>url\<close> of
  its argument: the target exactly as given on the command line, before it is resolved
  for navigation. For a cookie string without a colon it fails with the error
  \<^verbatim>\<open>cookie must contain : delimiter\<close>.
\<close>

theorem buildCookies_first_colon:
  assumes "cookie argv = Some cookieString"
  shows "(CHR '':'' \<in> set cookieString \<longrightarrow>
           buildCookies argv =
             Inr [\<lparr>c_name = takeWhile (\<lambda>x. x \<noteq> CHR '':'') cookieString,
                   c_value = tl (dropWhile (\<lambda>x. x \<noteq> CHR '':'') cookieString),
                   c_url = url argv\<rparr>] \<and>
           cookieString = takeWhile (\<lambda>x. x \<noteq> CHR '':'') cookieString @ CHR '':'' #
                            tl (dropWhile (\<lambda>x. x \<noteq> CHR '':'') cookieString) \<and>
           CHR '':'' \<notin> set (takeWhile (\<lambda>x. x \<noteq> CHR '':'') cookieString)) \<and>
         (CHR '':'' \<notin> set cookieString \<longrightarrow>
           buildCookies argv = Inl (Error ''cookie must contain : delimiter''))"
proof (intro conjI impI)
  let ?c = "CHR '':''"
  let ?n = "takeWhile (\<lambda>x. x \<noteq> ?c) cookieString"
  assume "?c \<notin> set cookieString"
  then show "buildCookies argv = Inl (Error ''cookie must contain : delimiter'')"
    using assms by (simp add: buildCookies_def indexOf_absent)
next
  let ?c = "CHR '':''"
  let ?n = "takeWhile (\<lambda>x. x \<noteq> ?c) cookieString"
  let ?d = "dropWhile (\<lambda>x. x \<noteq> ?c) cookieString"
  assume mem: "?c \<in> set cookieString"
  have ne: "?d \<noteq> []"
    using mem by (simp add: dropWhile_eq_Nil_conv)
  have hd: "hd ?d = ?c"
    using hd_dropWhile [OF ne] by simp
  have tl: "tl ?d = drop (Suc (length ?n)) cookieString"
    by (simp add: dropWhile_eq_drop drop_Suc tl_drop)
  have tk: "take (length ?n) cookieString = ?n"
    by (rule takeWhile_eq_take [symmetric])
  show "buildCookies argv = Inr [\<lparr>c_name = ?n, c_value = tl ?d, c_url = url argv\<rparr>]"
    using assms mem
    by (simp add: buildCookies_def indexOf_found Let_def substr_prefix substrFrom_suffix tl tk)
  have "cookieString = ?n @ ?d" by simp
  also have "?d = ?c # tl ?d"
    using ne hd by (cases ?d) auto
  finally show "cookieString = ?n @ ?c # tl ?d" .
  show "?c \<notin> set ?n"
    by (auto dest: set_takeWhileD)
qed

theorem buildCookies_first_colon_witness:
  "buildCookies (defaultArgv\<lparr>cookie := Some ''a:b:c''\<rparr>) =
     Inr [\<lparr>c_name = ''a'', c_value = ''b:c'', c_url = ''https://example.com''\<rparr>] \<and>
   buildCookies (defaultArgv\<lparr>cookie := Some ''session''\<rparr>) =
     Inl (Error ''cookie must contain : delimiter'')"
  using buildCookies_first_colon [of "defaultArgv\<lparr>cookie := Some ''a:b:c''\<rparr>" "''a:b:c''"]
    buildCookies_first_colon [of "defaultArgv\<lparr>cookie := Some ''session''\<rparr>" "''session''"]
  by (simp add: defaultArgv_def)

text \<open>
  C3 as stated fails for the scope: the cookie carries the target as given, while
  navigation receives the resolved URL. For a local path the two differ in one and the
  same run.
\<close>

theorem cookie_url_not_navigation_url:
  "(SetCookie [\<lparr>c_name = ''a'', c_value = ''b:c'', c_url = ''page.html''\<rparr>], Resolved pdfBytes)
      \<in> set (trace (print calmWorld (defaultArgv\<lparr>url := ''page.html'', cookie := Some ''a:b:c''\<rparr>))) \<and>
   (Goto ''file://page.html''
      (buildNavigationOptions (defaultArgv\<lparr>url := ''page.html'', cookie := Some ''a:b:c''\<rparr>)),
      Resolved pdfBytes)
      \<in> set (trace (print calmWorld (defaultArgv\<lparr>url := ''page.html'', cookie := Some ''a:b:c''\<rparr>))) \<and>
   ''page.html'' \<noteq> ''file://page.html''"
proof -
  let ?a = "defaultArgv\<lparr>url := ''page.html'', cookie := Some ''a:b:c''\<rparr>"
  have fields: "url ?a = ''page.html''" "cookie ?a = Some ''a:b:c''" "outputArg ?a = None"
    by (simp_all add: defaultArgv_def)
  have t: "targetUrl calmWorld ?a = ''file://page.html''"
    by (simp add: targetUrl_def fields calmWorld_def sampleIsUrl_examples sampleFileUrl_def)
  have c: "buildCookies ?a =
      Inr [\<lparr>c_name = ''a'', c_value = ''b:c'', c_url = ''page.html''\<rparr>]"
    by (simp add: buildCookies_def fields indexOf_def substr_def substrFrom_def
        substrStart_def)
  have "print calmWorld ?a [] =
     (Ok (),
      [(Launch (buildLaunchOptions ?a), Resolved pdfBytes),
       (NewPage, Resolved pdfBytes),
       (SetCookie [\<lparr>c_name = ''a'', c_value = ''b:c'', c_url = ''page.html''\<rparr>],
          Resolved pdfBytes),
       (Goto ''file://page.html'' (buildNavigationOptions ?a), Resolved pdfBytes),
       (Pdf (printPdfOptions ?a), Resolved pdfBytes),
       (StdoutWrite pdfBytes, Resolved pdfBytes),
       (Close, Resolved pdfBytes)])"
    by (simp add: print_def bindP_def await_def ret_def setCookies_def writeStdout_def
        liftE_def fields t c calm_respond)
  then show ?thesis
    by (simp add: trace_def)
qed

section \<open>The claims about the PDF options\<close>

text \<open>
  C1, as the code has it. Every render of the batch loop gets the options of one
  manifest entry, and in those a non-empty footer template forces
  \<open>displayHeaderFooter\<close> to true and replaces the bottom margin by the entry's footer
  height, while an empty footer template gives \<open>displayHeaderFooter = False\<close> and the
  caller's bottom margin. The single-document \<open>print\<close> has no such coupling: its
  \<open>displayHeaderFooter\<close> is the \<^verbatim>\<open>--display-header-footer\<close> flag and its bottom margin
  is always the caller's \<^verbatim>\<open>--margin-bottom\<close>, whatever the footer template.
\<close>

theorem bulkPrint_footer_coupling:
  "(\<forall>opts r. (Pdf opts, r) \<in> set (trace (bulkPrint w argv)) \<longrightarrow>
      (\<exists>config pdf. readBatch w (batchFile argv) = Inr (Some config) \<and> pdf \<in> set config \<and>
         opts = bulkPdfOptions argv pdf)) \<and>
   (entryFooterTemplate (pdfObject pdf) \<noteq> [] \<longrightarrow>
      pdf_displayHeaderFooter (bulkPdfOptions argv pdf) = True \<and>
      m_bottom (pdf_margin (bulkPdfOptions argv pdf)) = footerHeight (pdfObject pdf)) \<and>
   (entryFooterTemplate (pdfObject pdf) = [] \<longrightarrow>
      pdf_displayHeaderFooter (bulkPdfOptions argv pdf) = False \<and>
      m_bottom (pdf_margin (bulkPdfOptions argv pdf)) = marginBottom argv) \<and>
   (\<forall>opts r. (Pdf opts, r) \<in> set (trace (print w argv)) \<longrightarrow>
      pdf_displayHeaderFooter opts = displayHeaderFooter argv \<and>
      m_bottom (pdf_margin opts) = marginBottom argv \<and>
      pdf_footerTemplate opts = footerTemplate argv)"
proof (intro conjI)
  have "keeps (\<lambda>e. \<forall>opts. fst e = Pdf opts \<longrightarrow>
          (\<exists>config pdf. readBatch w (batchFile argv) = Inr (Some config) \<and> pdf \<in> set config \<and>
             opts = bulkPdfOptions argv pdf)) (bulkPrint w argv)"
    by (rule keeps_bulkPrint) auto
  then show "\<forall>opts r. (Pdf opts, r) \<in> set (trace (bulkPrint w argv)) \<longrightarrow>
      (\<exists>config pdf. readBatch w (batchFile argv) = Inr (Some config) \<and> pdf \<in> set config \<and>
         opts = bulkPdfOptions argv pdf)"
    by (auto dest!: keeps_trace)
next
  show "entryFooterTemplate (pdfObject pdf) \<noteq> [] \<longrightarrow>
      pdf_displayHeaderFooter (bulkPdfOptions argv pdf) = True \<and>
      m_bottom (pdf_margin (bulkPdfOptions argv pdf)) = footerHeight (pdfObject pdf)"
    by (simp add: bulkPdfOptions_def displayFooter_def)
next
  show "entryFooterTemplate (pdfObject pdf) = [] \<longrightarrow>
      pdf_displayHeaderFooter (bulkPdfOptions argv pdf) = False \<and>
      m_bottom (pdf_margin (bulkPdfOptions argv pdf)) = marginBottom argv"
    by (simp add: bulkPdfOptions_def displayFooter_def)
next
  have "keeps (\<lambda>e. \<forall>opts. fst e = Pdf opts \<longrightarrow> opts = printPdfOptions argv) (print w argv)"
    by (rule keeps_print) simp_all
  then show "\<forall>opts r. (Pdf opts, r) \<in> set (trace (print w argv)) \<longrightarrow>
      pdf_displayHeaderFooter opts = displayHeaderFooter argv \<and>
      m_bottom (pdf_margin opts) = marginBottom argv \<and>
      pdf_footerTemplate opts = footerTemplate argv"
    by (auto dest!: keeps_trace simp: printPdfOptions_def)
qed

theorem bulkPrint_footer_coupling_witness:
  "(Pdf (bulkPdfOptions defaultArgv footerEntry), Resolved pdfBytes)
      \<in> set (trace (bulkPrint calmWorld defaultArgv)) \<and>
   readBatch calmWorld (batchFile defaultArgv) = Inr (Some [footerEntry, plainEntry]) \<and>
   entryFooterTemplate (pdfObject footerEntry) \<noteq> [] \<and>
   pdf_displayHeaderFooter (bulkPdfOptions defaultArgv footerEntry) = True \<and>
   m_bottom (pdf_margin (bulkPdfOptions defaultArgv footerEntry)) = ''20mm'' \<and>
   entryFooterTemplate (pdfObject plainEntry) = [] \<and>
   pdf_displayHeaderFooter (bulkPdfOptions defaultArgv plainEntry) = False \<and>
   m_bottom (pdf_margin (bulkPdfOptions defaultArgv plainEntry)) = ''14.11mm''"
  using bulkPrint_footer_coupling [of calmWorld defaultArgv footerEntry]
    bulkPrint_footer_coupling [of calmWorld defaultArgv plainEntry]
  by (simp add: calm_bulk_trace defaultArgv_def)
    (simp add: calmWorld_def sampleReadBatch_def footerEntry_def plainEntry_def)

text \<open>
  C1 as stated fails for \<open>print\<close>: with a non-empty footer template and the
  \<^verbatim>\<open>--display-header-footer\<close> flag at its default, the engine is handed
  \<open>displayHeaderFooter = False\<close>.
\<close>

theorem print_footer_not_coupled:
  "footerTemplate (defaultArgv\<lparr>footerTemplate := ''<p>page</p>''\<rparr>) \<noteq> [] \<and>
   (Pdf (printPdfOptions (defaultArgv\<lparr>footerTemplate := ''<p>page</p>''\<rparr>)), Resolved pdfBytes)
      \<in> set (trace (print calmWorld (defaultArgv\<lparr>footerTemplate := ''<p>page</p>''\<rparr>))) \<and>
   pdf_footerTemplate (printPdfOptions (defaultArgv\<lparr>footerTemplate := ''<p>page</p>''\<rparr>))
      = ''<p>page</p>'' \<and>
   pdf_displayHeaderFooter (printPdfOptions (defaultArgv\<lparr>footerTemplate := ''<p>page</p>''\<rparr>))
      = False"
  by (simp add: calm_print_trace defaultArgv_def) (simp add: printPdfOptions_def)

text \<open>
  C6 fails on the code: the batch loop passes \<open>printBackground = True\<close> also when
  \<^verbatim>\<open>--background\<close> is false, although the \<^verbatim>\<open>bulk-print\<close> builder declares the flag
  and \<open>print\<close> passes it on.
\<close>

theorem bulkPrint_ignores_background:
  "background (defaultArgv\<lparr>background := False\<rparr>) = False \<and>
   (Pdf (bulkPdfOptions (defaultArgv\<lparr>background := False\<rparr>) footerEntry), Resolved pdfBytes)
      \<in> set (trace (bulkPrint calmWorld (defaultArgv\<lparr>background := False\<rparr>))) \<and>
   pdf_printBackground (bulkPdfOptions (defaultArgv\<lparr>background := False\<rparr>) footerEntry) = True \<and>
   (Pdf (printPdfOptions (defaultArgv\<lparr>background := False\<rparr>)), Resolved pdfBytes)
      \<in> set (trace (print calmWorld (defaultArgv\<lparr>background := False\<rparr>))) \<and>
   pdf_printBackground (printPdfOptions (defaultArgv\<lparr>background := False\<rparr>)) = False \<and>
   (''background'', Some (BoolDefault True)) \<in> set bulkPrintBuilder"
  by (simp add: calm_print_trace calm_bulk_trace defaultArgv_def)
    (simp add: printPdfOptions_def bulkPdfOptions_def bulkPrintBuilder_def commonOptions_def)

section \<open>The claims about navigation and cookies\<close>

text \<open>
  C7, as the code has it. In \<open>print\<close> and in \<open>screenshot\<close>, the URL of every navigation
  is \<^verbatim>\<open>parseUrl(target).toString()\<close> when \<^verbatim>\<open>isUrl\<close> accepts the target (the target
  itself exactly when the parser's serialisation leaves it unchanged), and
  \<^verbatim>\<open>fileUrl(target)\<close> otherwise.
\<close>

theorem navigation_url:
  "(\<forall>u n r. (Goto u n, r) \<in> set (trace (print w argv)) \<longrightarrow>
      u = (if isUrl w (url argv) then parseUrl w (url argv) else fileUrl w (url argv))) \<and>
   (\<forall>u n r. (Goto u n, r) \<in> set (trace (screenshot w argv)) \<longrightarrow>
      u = (if isUrl w (url argv) then parseUrl w (url argv) else fileUrl w (url argv)))"
proof
  have "keeps (\<lambda>e. \<forall>u n. fst e = Goto u n \<longrightarrow> u = targetUrl w argv) (print w argv)"
    by (rule keeps_print) simp_all
  then have "\<And>e. e \<in> set (trace (print w argv)) \<Longrightarrow>
      \<forall>u n. fst e = Goto u n \<longrightarrow> u = targetUrl w argv"
    by (rule keeps_trace)
  then show "\<forall>u n r. (Goto u n, r) \<in> set (trace (print w argv)) \<longrightarrow>
      u = (if isUrl w (url argv) then parseUrl w (url argv) else fileUrl w (url argv))"
    by (fastforce simp: targetUrl_def)
  have "keeps (\<lambda>e. \<forall>u n. fst e = Goto u n \<longrightarrow> u = targetUrl w argv) (screenshot w argv)"
    by (rule keeps_screenshot) simp_all
  then have "\<And>e. e \<in> set (trace (screenshot w argv)) \<Longrightarrow>
      \<forall>u n. fst e = Goto u n \<longrightarrow> u = targetUrl w argv"
    by (rule keeps_trace)
  then show "\<forall>u n r. (Goto u n, r) \<in> set (trace (screenshot w argv)) \<longrightarrow>
      u = (if isUrl w (url argv) then parseUrl w (url argv) else fileUrl w (url argv))"
    by (fastforce simp: targetUrl_def)
qed

theorem navigation_url_witness:
  "isUrl calmWorld (url defaultArgv) \<and>
   (Goto (parseUrl calmWorld (url defaultArgv)) (buildNavigationOptions defaultArgv),
      Resolved pdfBytes) \<in> set (trace (print calmWorld defaultArgv)) \<and>
   \<not> isUrl calmWorld (url (defaultArgv\<lparr>url := ''page.html''\<rparr>)) \<and>
   (Goto ''file://page.html'' (buildNavigationOptions (defaultArgv\<lparr>url := ''page.html''\<rparr>)),
      Resolved pdfBytes) \<in> set (trace (print calmWorld (defaultArgv\<lparr>url := ''page.html''\<rparr>)))"
proof -
  let ?a = "defaultArgv"
  let ?b = "defaultArgv\<lparr>url := ''page.html''\<rparr>"
  have ua: "isUrl calmWorld (url ?a)"
    by (simp add: defaultArgv_fields calmWorld_def sampleIsUrl_examples)
  have ub: "\<not> isUrl calmWorld (url ?b)"
    by (simp add: defaultArgv_fields calmWorld_def sampleIsUrl_examples)
  have fb: "fileUrl calmWorld (url ?b) = ''file://page.html''"
    by (simp add: defaultArgv_fields calmWorld_def sampleFileUrl_def)
  have ma: "(Goto (targetUrl calmWorld ?a) (buildNavigationOptions ?a), Resolved pdfBytes)
      \<in> set (trace (print calmWorld ?a))"
    by (simp add: calm_print_trace defaultArgv_fields)
  have mb: "(Goto (targetUrl calmWorld ?b) (buildNavigationOptions ?b), Resolved pdfBytes)
      \<in> set (trace (print calmWorld ?b))"
    by (simp add: calm_print_trace defaultArgv_fields)
  have "targetUrl calmWorld ?a = parseUrl calmWorld (url ?a)"
    using navigation_url [of calmWorld ?a] ma ua by metis
  moreover have "targetUrl calmWorld ?b = ''file://page.html''"
    using navigation_url [of calmWorld ?b] mb ub fb by metis
  ultimately show ?thesis
    using ua ub ma mb by simp
qed

text \<open>
  C7 as stated fails where the parser normalises: a target that \<^verbatim>\<open>isUrl\<close> accepts
  reaches navigation in the parser's serialisation, not verbatim.
\<close>

theorem navigation_url_not_verbatim:
  "isUrl lowerCaseWorld (url (defaultArgv\<lparr>url := ''HTTP://EXAMPLE.COM/''\<rparr>)) \<and>
   (Goto ''http://example.com/''
      (buildNavigationOptions (defaultArgv\<lparr>url := ''HTTP://EXAMPLE.COM/''\<rparr>)), Resolved pdfBytes)
      \<in> set (trace (print lowerCaseWorld (defaultArgv\<lparr>url := ''HTTP://EXAMPLE.COM/''\<rparr>))) \<and>
   ''http://example.com/'' \<noteq> url (defaultArgv\<lparr>url := ''HTTP://EXAMPLE.COM/''\<rparr>)"
proof -
  let ?a = "defaultArgv\<lparr>url := ''HTTP://EXAMPLE.COM/''\<rparr>"
  have u: "isUrl lowerCaseWorld (url ?a)"
    by (simp add: defaultArgv_fields lowerCaseWorld_def sampleIsUrl_examples)
  have "parseUrl lowerCaseWorld (url ?a) = map toLowerAscii (url ?a)"
    by (simp add: lowerCaseWorld_def)
  then have "parseUrl lowerCaseWorld (url ?a) = ''http://example.com/''"
    by (simp only: defaultArgv_fields lower_example)
  with u have t: "targetUrl lowerCaseWorld ?a = ''http://example.com/''"
    by (simp add: targetUrl_def)
  have "(Goto (targetUrl lowerCaseWorld ?a) (buildNavigationOptions ?a), Resolved pdfBytes)
      \<in> set (trace (print lowerCaseWorld ?a))"
    by (simp add: lowerCase_print_trace defaultArgv_fields)
  with t u show ?thesis
    by (simp add: defaultArgv_fields)
qed

text \<open>
  C9. The \<^verbatim>\<open>bulk-print\<close> builder accepts \<^verbatim>\<open>--cookie\<close>, and no run of \<open>bulkPrint\<close> ever
  calls \<^verbatim>\<open>page.setCookie\<close>, whether or not a cookie string was given.
\<close>

theorem bulkPrint_never_sets_cookie:
  "''cookie'' \<in> set (map fst bulkPrintBuilder) \<and>
   (\<forall>cookies r. (SetCookie cookies, r) \<notin> set (trace (bulkPrint w argv)))"
proof
  show "''cookie'' \<in> set (map fst bulkPrintBuilder)"
    by (simp add: bulkPrintBuilder_def commonOptions_def)
  have "keeps (\<lambda>e. \<forall>cookies. fst e \<noteq> SetCookie cookies) (bulkPrint w argv)"
    by (rule keeps_bulkPrint) simp_all
  then show "\<forall>cookies r. (SetCookie cookies, r) \<notin> set (trace (bulkPrint w argv))"
    by (auto dest: keeps_trace)
qed

theorem bulkPrint_never_sets_cookie_witness:
  "truthy (cookie (defaultArgv\<lparr>cookie := Some ''k:v''\<rparr>)) \<and>
   ''cookie'' \<in> set (map fst bulkPrintBuilder) \<and>
   (\<forall>cookies r. (SetCookie cookies, r)
      \<notin> set (trace (bulkPrint calmWorld (defaultArgv\<lparr>cookie := Some ''k:v''\<rparr>))))"
  using bulkPrint_never_sets_cookie [of calmWorld "defaultArgv\<lparr>cookie := Some ''k:v''\<rparr>"]
  by (simp add: defaultArgv_def)

section \<open>The claims about closing the browser and the output sink\<close>

text \<open>
  C2, as the code has it. In \<open>print\<close>, \<open>screenshot\<close> and \<open>bulkPrint\<close> the browser is
  closed on the success path only. A run that returns has called
  \<^verbatim>\<open>browser.close()\<close> once, as its last call, and no call of it rejected; whenever
  the close is called at all it is the last call. When any call before the close
  rejects (cookie injection, viewport, navigation, render, writing to standard output),
  the close step is not executed and the operation throws the error of that call; the
  command handler then reports it through \<^verbatim>\<open>console.log\<close> with its prefix, as the
  one further call, and exits with status 1. When building the cookies throws, or when
  the process is ended, the close step is not executed either.
\<close>

theorem close_only_on_success:
  "closeOnlyOnSuccess (print w argv) \<and>
   closeOnlyOnSuccess (screenshot w argv) \<and>
   closeOnlyOnSuccess (bulkPrint w argv) \<and>
   reportsAndExits ''Failed to generate pdf:'' (print w argv) (printHandler w argv) \<and>
   reportsAndExits ''Failed to take screenshot:'' (screenshot w argv)
     (screenshotHandler w argv) \<and>
   reportsAndExits ''Failed to generate pdf:'' (bulkPrint w argv) (bulkPrintHandler w argv) \<and>
   (truthy (cookie argv) \<and> buildCookies argv = Inl err \<longrightarrow>
      \<not> closed (trace (print w argv)) \<and> \<not> closed (trace (screenshot w argv)))"
proof (intro conjI)
  show "closeOnlyOnSuccess (print w argv)" by (rule print_close)
  show "closeOnlyOnSuccess (screenshot w argv)" by (rule screenshot_close)
  show "closeOnlyOnSuccess (bulkPrint w argv)" by (rule bulkPrint_close)
  show "reportsAndExits ''Failed to generate pdf:'' (print w argv) (printHandler w argv)"
    unfolding printHandler_def by (rule handler_reports)
  show "reportsAndExits ''Failed to take screenshot:'' (screenshot w argv)
     (screenshotHandler w argv)"
    unfolding screenshotHandler_def by (rule handler_reports)
  show "reportsAndExits ''Failed to generate pdf:'' (bulkPrint w argv) (bulkPrintHandler w argv)"
    unfolding bulkPrintHandler_def by (rule handler_reports)
  show "truthy (cookie argv) \<and> buildCookies argv = Inl err \<longrightarrow>
      \<not> closed (trace (print w argv)) \<and> \<not> closed (trace (screenshot w argv))"
    using cookie_error_no_close [of argv err w] by blast
qed

theorem close_only_on_success_witness:
  "(Pdf (bulkPdfOptions defaultArgv footerEntry), Rejected (Error ''Printing failed''))
      \<in> set (trace (bulkPrint renderFailWorld defaultArgv)) \<and>
   \<not> closed (trace (bulkPrint renderFailWorld defaultArgv)) \<and>
   outcome (bulkPrint renderFailWorld defaultArgv) = Throw (Error ''Printing failed'') \<and>
   outcome (bulkPrintHandler renderFailWorld defaultArgv) = Exit 1 \<and>
   trace (bulkPrintHandler renderFailWorld defaultArgv) =
     trace (bulkPrint renderFailWorld defaultArgv) @
     [(ConsoleLog ''Failed to generate pdf:'' (Error ''Printing failed''), Resolved [])] \<and>
   outcome (print calmWorld defaultArgv) = Ok () \<and>
   lastCallIsClose (trace (print calmWorld defaultArgv)) \<and>
   outcome (printHandler calmWorld defaultArgv) = Ok ()"
proof -
  have b: "batchFile defaultArgv = ''batch.json''"
    by (simp add: defaultArgv_def)
  have m: "(Pdf (bulkPdfOptions defaultArgv footerEntry), Rejected (Error ''Printing failed''))
      \<in> set (trace (bulkPrint renderFailWorld defaultArgv))"
    by (simp add: trace_def renderFail_bulk_trace [OF b])
  have ok: "outcome (print calmWorld defaultArgv) = Ok ()"
    by (simp add: outcome_def print_def bindP_def await_def ret_def setCookies_def
        writeStdout_def calmWorld_def defaultArgv_fields)
  note R = close_only_on_success [of renderFailWorld defaultArgv]
  note C = close_only_on_success [of calmWorld defaultArgv]
  from R have "closeOnlyOnSuccess (bulkPrint renderFailWorld defaultArgv)"
    by simp
  with m have nc: "\<not> closed (trace (bulkPrint renderFailWorld defaultArgv))"
    and th: "outcome (bulkPrint renderFailWorld defaultArgv) = Throw (Error ''Printing failed'')"
    unfolding closeOnlyOnSuccess_def by blast+
  from R have "reportsAndExits ''Failed to generate pdf:''
      (bulkPrint renderFailWorld defaultArgv) (bulkPrintHandler renderFailWorld defaultArgv)"
    by simp
  with th have h: "outcome (bulkPrintHandler renderFailWorld defaultArgv) = Exit 1"
    "trace (bulkPrintHandler renderFailWorld defaultArgv) =
       trace (bulkPrint renderFailWorld defaultArgv) @
       [(ConsoleLog ''Failed to generate pdf:'' (Error ''Printing failed''), Resolved [])]"
    unfolding reportsAndExits_def by blast+
  from C have "closeOnlyOnSuccess (print calmWorld defaultArgv)"
    by simp
  with ok have l: "lastCallIsClose (trace (print calmWorld defaultArgv))"
    unfolding closeOnlyOnSuccess_def by blast
  from C have "reportsAndExits ''Failed to generate pdf:''
      (print calmWorld defaultArgv) (printHandler calmWorld defaultArgv)"
    by simp
  with ok have hk: "outcome (printHandler calmWorld defaultArgv) = Ok ()"
    unfolding reportsAndExits_def by blast
  from m nc th h ok l hk show ?thesis
    by blast
qed

text \<open>
  C2 as stated fails: when navigation rejects in \<open>print\<close>, the handler logs the error
  and exits with status 1, and the launched browser was never closed.
\<close>

theorem print_timeout_leaves_browser_open:
  "trace (printHandler timeoutWorld defaultArgv) =
     [(Launch (buildLaunchOptions defaultArgv), Resolved pdfBytes),
      (NewPage, Resolved pdfBytes),
      (Goto ''https://example.com'' (buildNavigationOptions defaultArgv),
         Rejected (Error ''Navigation timeout exceeded'')),
      (ConsoleLog ''Failed to generate pdf:'' (Error ''Navigation timeout exceeded''),
         Resolved [])] \<and>
   outcome (printHandler timeoutWorld defaultArgv) = Exit 1 \<and>
   \<not> closed (trace (printHandler timeoutWorld defaultArgv))"
  by (simp add: trace_def outcome_def timeout_printHandler_run closed_def)



section \<open>The claims about the viewport of a screenshot\<close>

text \<open>
  C5, as the code has it. Let a viewport string be given, and let launching the browser
  and opening the page succeed. If the string is decimal digits, then \<^verbatim>\<open>x\<close> or
  \<^verbatim>\<open>X\<close>, then decimal digits (both values at most \<open>2 ^ 53\<close>, so that a JavaScript
  number holds them exactly), the third call of the run, before any navigation, sets the
  viewport to that width and height. If the string is not empty and not of that form,
  the process ends at once with status 1: the log holds the launch and the new page
  only, so nothing was reported through \<^verbatim>\<open>console.log\<close>. (An empty string is falsy
  and skips the block.)
\<close>

theorem screenshot_viewport:
  assumes "viewport argv = Some v"
    and "respond w [] (Launch (buildLaunchOptions argv)) = Resolved b1"
    and "respond w [(Launch (buildLaunchOptions argv), Resolved b1)] NewPage = Resolved b2"
  shows
    "(viewportForm v ws hs \<and> decimal ws \<le> 2 ^ 53 \<and> decimal hs \<le> 2 ^ 53 \<longrightarrow>
        map fst (take 3 (trace (screenshotHandler w argv))) =
          [Launch (buildLaunchOptions argv), NewPage,
           SetViewport \<lparr>vp_width = Some (decimal ws), vp_height = Some (decimal hs)\<rparr>]) \<and>
     (v \<noteq> [] \<and> (\<forall>ws hs. \<not> viewportForm v ws hs) \<longrightarrow>
        outcome (screenshotHandler w argv) = Exit 1 \<and>
        trace (screenshotHandler w argv) =
          [(Launch (buildLaunchOptions argv), Resolved b1), (NewPage, Resolved b2)])"
proof (intro conjI impI)
  let ?L = "Launch (buildLaunchOptions argv)"
  let ?tr2 = "[(?L, Resolved b1), (NewPage, Resolved b2)]"
  let ?h = "\<lambda>err. bindP (emit (ConsoleLog ''Failed to take screenshot:'' err))
              (\<lambda>_. processExit 1)"
  assume "v \<noteq> [] \<and> (\<forall>ws hs. \<not> viewportForm v ws hs)"
  then have v: "v \<noteq> []" and m: "viewportMatch v = None"
    by (simp_all add: viewportMatch_None)
  have a: "applyViewport w argv = processExit 1"
    using assms(1) v m by (simp add: applyViewport_def)
  have run: "screenshot w argv [] = (Exit 1, ?tr2)"
    using assms(2,3)
    by (simp add: screenshot_def a bindP_processExit) (simp add: bindP_def await_def processExit_def)
  show "outcome (screenshotHandler w argv) = Exit 1"
    by (simp add: outcome_def screenshotHandler_def handler_def catchP_def run)
  show "trace (screenshotHandler w argv) = ?tr2"
    by (simp add: trace_def screenshotHandler_def handler_def catchP_def run)
next
  let ?L = "Launch (buildLaunchOptions argv)"
  let ?tr2 = "[(?L, Resolved b1), (NewPage, Resolved b2)]"
  let ?vp = "SetViewport \<lparr>vp_width = Some (decimal ws), vp_height = Some (decimal hs)\<rparr>"
  let ?h = "\<lambda>err. bindP (emit (ConsoleLog ''Failed to take screenshot:'' err))
              (\<lambda>_. processExit 1)"
  assume "viewportForm v ws hs \<and> decimal ws \<le> 2 ^ 53 \<and> decimal hs \<le> 2 ^ 53"
  then have f: "viewportForm v ws hs" and bw: "decimal ws \<le> 2 ^ 53" and bh: "decimal hs \<le> 2 ^ 53"
    by simp_all
  from f have m: "viewportMatch v = Some (ws, hs)"
    by (simp add: viewportMatch_form)
  from f have v: "v \<noteq> []"
    by (auto simp: viewportForm_def)
  from f bw bh have p: "parseInt ws = Some (decimal ws)" "parseInt hs = Some (decimal hs)"
    by (simp_all add: parseInt_def viewportForm_def)
  have a: "applyViewport w argv = bindP (await w ?vp) (\<lambda>_. ret ())"
    using assms(1) v m p by (simp add: applyViewport_def)
  define rest where "rest =
     bindP (setCookies w argv) (\<lambda>_.
     bindP (await w (Goto (targetUrl w argv) (buildNavigationOptions argv))) (\<lambda>_.
     bindP (await w (Screenshot (screenshotOptionsOf argv))) (\<lambda>buffer.
     bindP (writeStdout w argv buffer) (\<lambda>_.
     bindP (await w Close) (\<lambda>_. ret ())))))"
  have g: "growing (catchP rest ?h)"
    unfolding rest_def
    by (intro growing_catchP growing_bindP growing_await growing_setCookies growing_writeStdout
        growing_ret growing_emit growing_processExit)
  have s: "screenshot w argv =
     bindP (await w ?L) (\<lambda>_. bindP (await w NewPage) (\<lambda>_.
       bindP (bindP (await w ?vp) (\<lambda>_. ret ())) (\<lambda>_. rest)))"
    by (simp add: screenshot_def a rest_def)
  have l: "await w ?L [] = (Ok b1, [(?L, Resolved b1)])"
    using assms(2) by (simp add: await_def)
  have n: "await w NewPage [(?L, Resolved b1)] = (Ok b2, ?tr2)"
    using assms(3) by (simp add: await_def)
  have h1: "catchP (screenshot w argv) ?h [] =
     catchP (bindP (bindP (await w ?vp) (\<lambda>_. ret ())) (\<lambda>_. rest)) ?h ?tr2"
  proof -
    have "catchP (screenshot w argv) ?h [] =
       catchP (bindP (await w NewPage) (\<lambda>_.
         bindP (bindP (await w ?vp) (\<lambda>_. ret ())) (\<lambda>_. rest))) ?h [(?L, Resolved b1)]"
      unfolding s using l by (rule catchP_bindP_run)
    also have "\<dots> = catchP (bindP (bindP (await w ?vp) (\<lambda>_. ret ())) (\<lambda>_. rest)) ?h ?tr2"
      using n by (rule catchP_bindP_run)
    finally show ?thesis .
  qed
  have tr: "trace (screenshotHandler w argv) =
     snd (catchP (bindP (bindP (await w ?vp) (\<lambda>_. ret ())) (\<lambda>_. rest)) ?h ?tr2)"
    by (simp only: trace_def screenshotHandler_def handler_def h1)
  show "map fst (take 3 (trace (screenshotHandler w argv))) = [?L, NewPage, ?vp]"
  proof (cases "respond w ?tr2 ?vp")
    case (Rejected e)
    then have "bindP (bindP (await w ?vp) (\<lambda>_. ret ())) (\<lambda>_. rest) ?tr2 =
        (Throw e, ?tr2 @ [(?vp, Rejected e)])"
      by (simp add: bindP_def await_def)
    then have "snd (catchP (bindP (bindP (await w ?vp) (\<lambda>_. ret ())) (\<lambda>_. rest)) ?h ?tr2) =
        ?tr2 @ [(?vp, Rejected e),
                (ConsoleLog ''Failed to take screenshot:'' e, Resolved [])]"
      by (simp add: catchP_def bindP_def emit_def processExit_def)
    then show ?thesis
      by (simp add: tr)
  next
    case (Resolved b3)
    then have "bindP (await w ?vp) (\<lambda>_. ret ()) ?tr2 = (Ok (), ?tr2 @ [(?vp, Resolved b3)])"
      by (simp add: bindP_def await_def ret_def)
    then have "catchP (bindP (bindP (await w ?vp) (\<lambda>_. ret ())) (\<lambda>_. rest)) ?h ?tr2 =
        catchP rest ?h (?tr2 @ [(?vp, Resolved b3)])"
      by (rule catchP_bindP_run)
    moreover from g obtain new where
      "snd (catchP rest ?h (?tr2 @ [(?vp, Resolved b3)])) = (?tr2 @ [(?vp, Resolved b3)]) @ new"
      unfolding growing_def by blast
    ultimately show ?thesis
      by (simp add: tr)
  qed
qed

theorem screenshot_viewport_witness:
  "viewportForm ''800x600'' ''800'' ''600'' \<and>
   map fst (take 3 (trace (screenshotHandler calmWorld (defaultArgv\<lparr>viewport := Some ''800x600''\<rparr>)))) =
     [Launch (buildLaunchOptions (defaultArgv\<lparr>viewport := Some ''800x600''\<rparr>)), NewPage,
      SetViewport \<lparr>vp_width = Some 800, vp_height = Some 600\<rparr>] \<and>
   viewportMatch ''abcx600'' = None \<and>
   outcome (screenshotHandler calmWorld (defaultArgv\<lparr>viewport := Some ''abcx600''\<rparr>)) = Exit 1 \<and>
   trace (screenshotHandler calmWorld (defaultArgv\<lparr>viewport := Some ''abcx600''\<rparr>)) =
     [(Launch (buildLaunchOptions (defaultArgv\<lparr>viewport := Some ''abcx600''\<rparr>)), Resolved pdfBytes),
      (NewPage, Resolved pdfBytes)] \<and>
   viewportMatch ''800'' = None \<and>
   outcome (screenshotHandler calmWorld (defaultArgv\<lparr>viewport := Some ''800''\<rparr>)) = Exit 1"
proof -
  let ?a = "defaultArgv\<lparr>viewport := Some ''800x600''\<rparr>"
  let ?b = "defaultArgv\<lparr>viewport := Some ''abcx600''\<rparr>"
  let ?c = "defaultArgv\<lparr>viewport := Some ''800''\<rparr>"
  have f: "viewportForm ''800x600'' ''800'' ''600''"
    by (simp add: viewportMatch_form [symmetric] viewportMatch_examples)
  have d: "decimal ''800'' \<le> 2 ^ 53" "decimal ''600'' \<le> 2 ^ 53"
    by (simp_all add: decimal_examples)
  have nb: "\<forall>ws hs. \<not> viewportForm ''abcx600'' ws hs"
    by (simp add: viewportMatch_None [symmetric] viewportMatch_examples)
  have nc: "\<forall>ws hs. \<not> viewportForm ''800'' ws hs"
    by (simp add: viewportMatch_None [symmetric] viewportMatch_examples)
  have A: "map fst (take 3 (trace (screenshotHandler calmWorld ?a))) =
     [Launch (buildLaunchOptions ?a), NewPage,
      SetViewport \<lparr>vp_width = Some (decimal ''800''), vp_height = Some (decimal ''600'')\<rparr>]"
    using screenshot_viewport [of ?a "''800x600''" calmWorld pdfBytes pdfBytes "''800''" "''600''"]
      f d by (simp add: calm_respond)
  have B: "outcome (screenshotHandler calmWorld ?b) = Exit 1 \<and>
     trace (screenshotHandler calmWorld ?b) =
       [(Launch (buildLaunchOptions ?b), Resolved pdfBytes), (NewPage, Resolved pdfBytes)]"
    using screenshot_viewport [of ?b "''abcx600''" calmWorld pdfBytes pdfBytes] nb
    by (simp add: calm_respond)
  have C: "outcome (screenshotHandler calmWorld ?c) = Exit 1"
    using screenshot_viewport [of ?c "''800''" calmWorld pdfBytes pdfBytes] nc
    by (simp add: calm_respond)
  from f A B C show ?thesis
    by (simp add: decimal_examples viewportMatch_examples)
qed

text \<open>
  C5 as stated fails at the empty string: it does not match the pattern, yet
  \<^verbatim>\<open>if (argv.viewport)\<close> skips the check and the screenshot is taken and the browser
  closed as if no viewport had been given.
\<close>

theorem screenshot_empty_viewport_runs:
  "viewportMatch [] = None \<and>
   outcome (screenshotHandler calmWorld (defaultArgv\<lparr>viewport := Some []\<rparr>)) = Ok () \<and>
   map fst (trace (screenshotHandler calmWorld (defaultArgv\<lparr>viewport := Some []\<rparr>))) =
     [Launch (buildLaunchOptions (defaultArgv\<lparr>viewport := Some []\<rparr>)),
      NewPage,
      Goto ''https://example.com'' (buildNavigationOptions (defaultArgv\<lparr>viewport := Some []\<rparr>)),
      Screenshot (screenshotOptionsOf (defaultArgv\<lparr>viewport := Some []\<rparr>)),
      StdoutWrite pdfBytes,
      Close]"
proof -
  let ?a = "defaultArgv\<lparr>viewport := Some []\<rparr>"
  have fields: "viewport ?a = Some []" "cookie ?a = None" "outputArg ?a = None"
    "url ?a = ''https://example.com''"
    by (simp_all add: defaultArgv_def)
  have t: "targetUrl calmWorld ?a = ''https://example.com''"
    by (simp add: targetUrl_def fields calmWorld_def sampleIsUrl_examples)
  have "screenshotHandler calmWorld ?a [] =
     (Ok (),
      [(Launch (buildLaunchOptions ?a), Resolved pdfBytes),
       (NewPage, Resolved pdfBytes),
       (Goto ''https://example.com'' (buildNavigationOptions ?a), Resolved pdfBytes),
       (Screenshot (screenshotOptionsOf ?a), Resolved pdfBytes),
       (StdoutWrite pdfBytes, Resolved pdfBytes),
       (Close, Resolved pdfBytes)])"
    by (simp add: screenshotHandler_def handler_def catchP_def screenshot_def bindP_def
        await_def ret_def applyViewport_def setCookies_def writeStdout_def fields t calm_respond)
  then show ?thesis
    by (simp add: outcome_def trace_def viewportMatch_examples)
qed

text \<open>
  C10, as the code has it. For a screenshot with a viewport string that is not empty
  and does not have the form of the pattern, no run calls \<^verbatim>\<open>browser.close()\<close>; when
  the launch and the new page succeed, the process ends with status 1 right after
  them, so the browser that was launched is never closed. (An empty viewport string is
  falsy and never reaches the check.)
\<close>

theorem screenshot_exit_skips_close:
  assumes "viewport argv = Some v" and "v \<noteq> []" and "\<forall>ws hs. \<not> viewportForm v ws hs"
  shows "\<not> closed (trace (screenshotHandler w argv)) \<and>
     (respond w [] (Launch (buildLaunchOptions argv)) = Resolved b1 \<and>
      respond w [(Launch (buildLaunchOptions argv), Resolved b1)] NewPage = Resolved b2 \<longrightarrow>
        outcome (screenshot w argv) = Exit 1 \<and>
        trace (screenshot w argv) =
          [(Launch (buildLaunchOptions argv), Resolved b1), (NewPage, Resolved b2)])"
proof (intro conjI impI)
  from assms(3) have m: "viewportMatch v = None"
    by (simp add: viewportMatch_None)
  have a: "applyViewport w argv = processExit 1"
    using assms(1,2) m by (simp add: applyViewport_def)
  have s: "screenshot w argv =
     bindP (await w (Launch (buildLaunchOptions argv))) (\<lambda>_.
     bindP (await w NewPage) (\<lambda>_. processExit 1))"
    by (simp add: screenshot_def a bindP_processExit)
  have "keeps (\<lambda>e. fst e \<noteq> Close) (screenshotHandler w argv)"
    by (simp add: screenshotHandler_def handler_def s keeps_catchP keeps_bindP keeps_await
        keeps_processExit keeps_emit)
  then have "\<And>e. e \<in> set (trace (screenshotHandler w argv)) \<Longrightarrow> fst e \<noteq> Close"
    by (rule keeps_trace)
  then show "\<not> closed (trace (screenshotHandler w argv))"
    by (force simp: closed_def)
  assume r: "respond w [] (Launch (buildLaunchOptions argv)) = Resolved b1 \<and>
      respond w [(Launch (buildLaunchOptions argv), Resolved b1)] NewPage = Resolved b2"
  then have run: "screenshot w argv [] =
      (Exit 1, [(Launch (buildLaunchOptions argv), Resolved b1), (NewPage, Resolved b2)])"
    by (simp add: s bindP_def await_def processExit_def)
  show "outcome (screenshot w argv) = Exit 1"
    by (simp add: outcome_def run)
  show "trace (screenshot w argv) =
      [(Launch (buildLaunchOptions argv), Resolved b1), (NewPage, Resolved b2)]"
    by (simp add: trace_def run)
qed

theorem screenshot_exit_skips_close_witness:
  "viewport (defaultArgv\<lparr>viewport := Some ''1024*768''\<rparr>) = Some ''1024*768'' \<and>
   viewportMatch ''1024*768'' = None \<and>
   \<not> closed (trace (screenshotHandler calmWorld (defaultArgv\<lparr>viewport := Some ''1024*768''\<rparr>))) \<and>
   outcome (screenshot calmWorld (defaultArgv\<lparr>viewport := Some ''1024*768''\<rparr>)) = Exit 1 \<and>
   trace (screenshot calmWorld (defaultArgv\<lparr>viewport := Some ''1024*768''\<rparr>)) =
     [(Launch (buildLaunchOptions (defaultArgv\<lparr>viewport := Some ''1024*768''\<rparr>)), Resolved pdfBytes),
      (NewPage, Resolved pdfBytes)]"
proof -
  let ?a = "defaultArgv\<lparr>viewport := Some ''1024*768''\<rparr>"
  have v: "viewport ?a = Some ''1024*768''"
    by (simp add: defaultArgv_def)
  have m: "viewportMatch ''1024*768'' = None"
    by (simp add: viewportMatch_def isDigit_def)
  then have n: "\<forall>ws hs. \<not> viewportForm ''1024*768'' ws hs"
    by (simp add: viewportMatch_None)
  have ne: "''1024*768'' \<noteq> []" by simp
  from screenshot_exit_skips_close [OF v ne n, of calmWorld pdfBytes pdfBytes] v m
  show ?thesis
    by (simp add: calm_respond)
qed

text \<open>
  C10 as stated fails at the empty string: it does not match the pattern, but no
  fast-fail termination occurs; the screenshot is taken and the browser is closed.
\<close>

theorem screenshot_empty_viewport_closes:
  "viewport (defaultArgv\<lparr>viewport := Some [], outputArg := Some ''shot.png''\<rparr>) = Some [] \<and>
   viewportMatch [] = None \<and>
   outcome (screenshot calmWorld (defaultArgv\<lparr>viewport := Some [], outputArg := Some ''shot.png''\<rparr>))
     = Ok () \<and>
   closed (trace (screenshot calmWorld
     (defaultArgv\<lparr>viewport := Some [], outputArg := Some ''shot.png''\<rparr>))) \<and>
   map fst (trace (screenshot calmWorld
     (defaultArgv\<lparr>viewport := Some [], outputArg := Some ''shot.png''\<rparr>))) =
     [Launch (buildLaunchOptions (defaultArgv\<lparr>viewport := Some [], outputArg := Some ''shot.png''\<rparr>)),
      NewPage,
      Goto ''https://example.com''
        (buildNavigationOptions (defaultArgv\<lparr>viewport := Some [], outputArg := Some ''shot.png''\<rparr>)),
      Screenshot (screenshotOptionsOf
        (defaultArgv\<lparr>viewport := Some [], outputArg := Some ''shot.png''\<rparr>)),
      Close]"
proof -
  let ?a = "defaultArgv\<lparr>viewport := Some [], outputArg := Some ''shot.png''\<rparr>"
  have fields: "viewport ?a = Some []" "cookie ?a = None" "outputArg ?a = Some ''shot.png''"
    "url ?a = ''https://example.com''"
    by (simp_all add: defaultArgv_def)
  have t: "targetUrl calmWorld ?a = ''https://example.com''"
    by (simp add: targetUrl_def fields calmWorld_def sampleIsUrl_examples)
  have "screenshot calmWorld ?a [] =
     (Ok (),
      [(Launch (buildLaunchOptions ?a), Resolved pdfBytes),
       (NewPage, Resolved pdfBytes),
       (Goto ''https://example.com'' (buildNavigationOptions ?a), Resolved pdfBytes),
       (Screenshot (screenshotOptionsOf ?a), Resolved pdfBytes),
       (Close, Resolved pdfBytes)])"
    by (simp add: screenshot_def bindP_def await_def ret_def applyViewport_def setCookies_def
        writeStdout_def fields t calm_respond)
  then show ?thesis
    by (simp add: outcome_def trace_def closed_def viewportMatch_examples fields)
qed

end
